theory Spec2Isabelle
  imports Complex_Main "HOL-Library.Multiset" "HOL-Library.Char_ord" "HOL-Library.List_Lexorder"
begin

section \<open>Python values handled by the query environment\<close>

text \<open>
  The module \<^verbatim>\<open>beancount/query/query_env.py\<close> defines column accessors, functions and
  aggregators over ledger entries and postings. Python is dynamically typed, so every
  evaluated operand and every store slot is a value of one universe. Exceptions are
  values of \<open>error\<close>; a computation that may raise returns \<open>error + 'a\<close>.
\<close>

datatype error = TypeError | KeyError | IndexError | AttributeError | ReError | NotModelled

text \<open>
  The type objects that occur as \<^verbatim>\<open>dtype\<close> or in \<^verbatim>\<open>__intypes__\<close> in the module.
\<close>

datatype pytype =
    TObject | TInt | TFloat | TDecimal | TStr | TBool | TDate | TSet | TList
  | TAmount | TPosition | TInventory | TTransaction | TPosting

text \<open>
  \<^verbatim>\<open>decimal.Decimal\<close>: a finite decimal number \<open>coef * 10 ^ expo\<close>. Special values
  (NaN, infinities, the sign of zero) and the exponent limits of the context are left out.
\<close>

datatype decimal = Dec (coef: int) (expo: int)

datatype date = Date (year: int) (month: int) (day: int)

text \<open>
  Modelled from the spec: the classes \<^verbatim>\<open>Amount\<close>, \<^verbatim>\<open>Lot\<close> and \<^verbatim>\<open>Position\<close> of
  \<^verbatim>\<open>beancount.core\<close> are not part of the sources at hand. The glossary describes a
  position as a quantity of a currency optionally tagged with an acquisition cost (number
  and currency); the fields are the attributes the accessors read
  (\<^verbatim>\<open>position.number\<close>, \<^verbatim>\<open>position.lot.currency\<close>, \<^verbatim>\<open>position.lot.cost\<close>,
  \<^verbatim>\<open>cost.number\<close>, \<^verbatim>\<open>cost.currency\<close>).
\<close>

datatype amount = Amount (amount_number: decimal) (amount_currency: string)

datatype lot = Lot (lot_currency: string) (lot_cost: "amount option")

datatype position = Position (position_lot: lot) (position_number: decimal)

text \<open>
  A value. \<open>VNone\<close> is Python's \<^verbatim>\<open>None\<close>. An \<^verbatim>\<open>Inventory\<close> is a mutable object, so a
  value of that class is a reference \<open>VInv a\<close> to the heap cell \<open>a\<close> that holds the
  object. Floats are not part of the model.
\<close>

datatype val =
    VNone
  | VBool bool
  | VInt int
  | VDec decimal
  | VStr string
  | VDate date
  | VSet "string set"
  | VAmount amount
  | VPosition position
  | VInv nat

subsection \<open>Decimal arithmetic\<close>

text \<open>
  Python's default decimal context has a precision of 28 significant digits and rounds
  half to even. An addition computes the exact sum and then rounds it to the precision.
\<close>

fun ndigits :: "nat \<Rightarrow> nat" where
  "ndigits n = (if n < 10 then 1 else Suc (ndigits (n div 10)))"

declare ndigits.simps [simp del]

definition prec :: nat where
  "prec = 28"

definition dec_fix :: "decimal \<Rightarrow> decimal" where
  "dec_fix x =
     (let c = coef x; a = nat \<bar>c\<bar>; n = ndigits a in
      if n \<le> prec then x
      else
        let d = n - prec;
            q = a div 10 ^ d;
            r = a mod 10 ^ d;
            half = 5 * 10 ^ (d - 1);
            q' = (if half < r \<or> (r = half \<and> odd q) then q + 1 else q);
            s = (if c < 0 then - 1 else 1)
        in if q' = 10 ^ prec then Dec (s * 10 ^ (prec - 1)) (expo x + int d + 1)
           else Dec (s * int q') (expo x + int d))"

text \<open>The coefficient of \<open>x\<close> when it is written with the exponent \<open>e \<le> expo x\<close>.\<close>

definition aligned :: "int \<Rightarrow> decimal \<Rightarrow> int" where
  "aligned e x = coef x * 10 ^ nat (expo x - e)"

definition dec_add :: "decimal \<Rightarrow> decimal \<Rightarrow> decimal" where
  "dec_add x y =
     (let e = min (expo x) (expo y) in dec_fix (Dec (aligned e x + aligned e y) e))"

definition dec_less :: "decimal \<Rightarrow> decimal \<Rightarrow> bool" where
  "dec_less x y = (let e = min (expo x) (expo y) in aligned e x < aligned e y)"

definition dec_of_int :: "int \<Rightarrow> decimal" where
  "dec_of_int i = Dec i 0"

subsection \<open>The operators the module applies to values\<close>

text \<open>
  \<^verbatim>\<open>a + b\<close> as used by \<^verbatim>\<open>store[handle] += value\<close>. \<^verbatim>\<open>bool\<close> is a subclass of
  \<^verbatim>\<open>int\<close>. Classes outside the sources (\<^verbatim>\<open>Amount\<close>, \<^verbatim>\<open>Position\<close>,
  \<^verbatim>\<open>Inventory\<close>) may define their own operators; the model does not guess them.
\<close>

fun as_int :: "val \<Rightarrow> int option" where
  "as_int (VInt i) = Some i"
| "as_int (VBool b) = Some (if b then 1 else 0)"
| "as_int _ = None"

fun foreign :: "val \<Rightarrow> bool" where
  "foreign (VAmount _) = True"
| "foreign (VPosition _) = True"
| "foreign (VInv _) = True"
| "foreign _ = False"

definition py_add :: "val \<Rightarrow> val \<Rightarrow> error + val" where
  "py_add x y =
     (if foreign x \<or> foreign y then Inl NotModelled
      else case (as_int x, as_int y) of
        (Some i, Some j) \<Rightarrow> Inr (VInt (i + j))
      | (Some i, None) \<Rightarrow>
          (case y of VDec d \<Rightarrow> Inr (VDec (dec_add (dec_of_int i) d)) | _ \<Rightarrow> Inl TypeError)
      | (None, Some j) \<Rightarrow>
          (case x of VDec d \<Rightarrow> Inr (VDec (dec_add d (dec_of_int j))) | _ \<Rightarrow> Inl TypeError)
      | (None, None) \<Rightarrow>
          (case x of
             VDec a \<Rightarrow> (case y of VDec b \<Rightarrow> Inr (VDec (dec_add a b)) | _ \<Rightarrow> Inl TypeError)
           | VStr a \<Rightarrow> (case y of VStr b \<Rightarrow> Inr (VStr (a @ b)) | _ \<Rightarrow> Inl TypeError)
           | _ \<Rightarrow> Inl TypeError))"

definition date_less :: "date \<Rightarrow> date \<Rightarrow> bool" where
  "date_less a b =
     (year a < year b \<or> (year a = year b \<and>
        (month a < month b \<or> (month a = month b \<and> day a < day b))))"

text \<open>\<^verbatim>\<open>a < b\<close>; \<^verbatim>\<open>a > b\<close> is \<^verbatim>\<open>b < a\<close> for every class modelled here.\<close>

definition py_lt :: "val \<Rightarrow> val \<Rightarrow> error + bool" where
  "py_lt x y =
     (if foreign x \<or> foreign y then Inl NotModelled
      else case (as_int x, as_int y) of
        (Some i, Some j) \<Rightarrow> Inr (i < j)
      | (Some i, None) \<Rightarrow>
          (case y of VDec d \<Rightarrow> Inr (dec_less (dec_of_int i) d) | _ \<Rightarrow> Inl TypeError)
      | (None, Some j) \<Rightarrow>
          (case x of VDec d \<Rightarrow> Inr (dec_less d (dec_of_int j)) | _ \<Rightarrow> Inl TypeError)
      | (None, None) \<Rightarrow>
          (case x of
             VDec a \<Rightarrow> (case y of VDec b \<Rightarrow> Inr (dec_less a b) | _ \<Rightarrow> Inl TypeError)
           | VStr a \<Rightarrow> (case y of VStr b \<Rightarrow> Inr (a < b) | _ \<Rightarrow> Inl TypeError)
           | VDate a \<Rightarrow> (case y of VDate b \<Rightarrow> Inr (date_less a b) | _ \<Rightarrow> Inl TypeError)
           | VSet a \<Rightarrow> (case y of VSet b \<Rightarrow> Inr (a \<subset> b) | _ \<Rightarrow> Inl TypeError)
           | _ \<Rightarrow> Inl TypeError))"

definition py_gt :: "val \<Rightarrow> val \<Rightarrow> error + bool" where
  "py_gt x y = py_lt y x"

section \<open>Row contexts: entries and postings\<close>

text \<open>
  Modelled from the spec: the directive classes of \<^verbatim>\<open>beancount.core.data\<close> are not part
  of the sources at hand. The glossary describes an entry as a directive with a date, flag,
  payee, narration, tags, links and zero or more postings, and a posting as an account
  name, a position, an optional price and a back-reference to its parent entry; the spec
  names payee, narration, tags and links as the optional fields. The fields below are the
  attributes the accessors read. Only a \<^verbatim>\<open>Transaction\<close> has postings, so the parent
  of a posting is a transaction. Every other directive class is \<open>Directive\<close> with the
  name of its class, its source and its date.
\<close>

datatype source = Source (filename: string) (lineno: int)

datatype transaction =
  Transaction
    (txn_source: source)
    (txn_date: date)
    (txn_flag: string)
    (txn_payee: "string option")
    (txn_narration: "string option")
    (txn_tags: "string set option")
    (txn_links: "string set option")
    (txn_postings: "posting list")
and posting =
  Posting
    (post_entry: transaction)
    (post_flag: "string option")
    (post_account: string)
    (post_position: position)
    (post_price: "amount option")

datatype entry = TransactionEntry transaction | Directive string source date

fun entry_source :: "entry \<Rightarrow> source" where
  "entry_source (TransactionEntry t) = txn_source t"
| "entry_source (Directive _ s _) = s"

fun entry_date :: "entry \<Rightarrow> date" where
  "entry_date (TransactionEntry t) = txn_date t"
| "entry_date (Directive _ _ d) = d"

text \<open>\<^verbatim>\<open>type(entry).__name__\<close>\<close>

fun type_name :: "entry \<Rightarrow> string" where
  "type_name (TransactionEntry _) = ''Transaction''"
| "type_name (Directive n _ _) = n"

text \<open>\<^verbatim>\<open>str.lower\<close> on the ASCII letters of a class name.\<close>

definition lower_char :: "char \<Rightarrow> char" where
  "lower_char c =
     (if CHR ''A'' \<le> c \<and> c \<le> CHR ''Z'' then char_of (of_char c + (32 :: nat)) else c)"

definition lower :: "string \<Rightarrow> string" where
  "lower s = map lower_char s"

text \<open>A field that holds a string or \<^verbatim>\<open>None\<close>, as a value.\<close>

fun opt_str :: "string option \<Rightarrow> val" where
  "opt_str None = VNone"
| "opt_str (Some s) = VStr s"

text \<open>
  \<^verbatim>\<open>x or ''\<close> for a field that holds a string or \<^verbatim>\<open>None\<close>: the empty string and
  \<^verbatim>\<open>None\<close> are both false.
\<close>

fun or_empty_str :: "string option \<Rightarrow> val" where
  "or_empty_str None = VStr []"
| "or_empty_str (Some s) = (if s = [] then VStr [] else VStr s)"

definition EMPTY_SET :: "string set" where
  "EMPTY_SET = {}"

text \<open>\<^verbatim>\<open>x or EMPTY_SET\<close> for a field that holds a set or \<^verbatim>\<open>None\<close>.\<close>

fun or_EMPTY_SET :: "string set option \<Rightarrow> val" where
  "or_EMPTY_SET None = VSet EMPTY_SET"
| "or_EMPTY_SET (Some S) = (if S = {} then VSet EMPTY_SET else VSet S)"

section \<open>Column accessors for entries\<close>

text \<open>
  \<^verbatim>\<open>hash_entry\<close> comes from \<^verbatim>\<open>beancount.core.compare\<close>, outside the sources at hand;
  the two id accessors take it as a parameter.
\<close>

definition IdEntryColumn :: "(entry \<Rightarrow> string) \<Rightarrow> entry \<Rightarrow> val" where
  "IdEntryColumn hash_entry e = VStr (hash_entry e)"

definition TypeEntryColumn :: "entry \<Rightarrow> val" where
  "TypeEntryColumn e = VStr (lower (type_name e))"

definition FilenameEntryColumn :: "entry \<Rightarrow> val" where
  "FilenameEntryColumn e = VStr (filename (entry_source e))"

definition LineNoEntryColumn :: "entry \<Rightarrow> val" where
  "LineNoEntryColumn e = VInt (lineno (entry_source e))"

definition DateEntryColumn :: "entry \<Rightarrow> val" where
  "DateEntryColumn e = VDate (entry_date e)"

definition YearEntryColumn :: "entry \<Rightarrow> val" where
  "YearEntryColumn e = VInt (year (entry_date e))"

definition MonthEntryColumn :: "entry \<Rightarrow> val" where
  "MonthEntryColumn e = VInt (month (entry_date e))"

definition DayEntryColumn :: "entry \<Rightarrow> val" where
  "DayEntryColumn e = VInt (day (entry_date e))"

definition FlagEntryColumn :: "entry \<Rightarrow> val" where
  "FlagEntryColumn e =
     (case e of TransactionEntry t \<Rightarrow> VStr (txn_flag t) | Directive _ _ _ \<Rightarrow> VNone)"

definition PayeeEntryColumn :: "entry \<Rightarrow> val" where
  "PayeeEntryColumn e =
     (case e of TransactionEntry t \<Rightarrow> or_empty_str (txn_payee t) | Directive _ _ _ \<Rightarrow> VNone)"

definition NarrationEntryColumn :: "entry \<Rightarrow> val" where
  "NarrationEntryColumn e =
     (case e of TransactionEntry t \<Rightarrow> or_empty_str (txn_narration t)
      | Directive _ _ _ \<Rightarrow> VNone)"

definition TagsEntryColumn :: "entry \<Rightarrow> val" where
  "TagsEntryColumn e =
     (case e of TransactionEntry t \<Rightarrow> or_EMPTY_SET (txn_tags t)
      | Directive _ _ _ \<Rightarrow> VSet EMPTY_SET)"

definition LinksEntryColumn :: "entry \<Rightarrow> val" where
  "LinksEntryColumn e =
     (case e of TransactionEntry t \<Rightarrow> or_EMPTY_SET (txn_links t)
      | Directive _ _ _ \<Rightarrow> VSet EMPTY_SET)"

section \<open>Column accessors for postings\<close>

definition IdColumn :: "(entry \<Rightarrow> string) \<Rightarrow> posting \<Rightarrow> val" where
  "IdColumn hash_entry p = VStr (hash_entry (TransactionEntry (post_entry p)))"

definition TypeColumn :: "posting \<Rightarrow> val" where
  "TypeColumn p = VStr (lower (type_name (TransactionEntry (post_entry p))))"

definition FilenameColumn :: "posting \<Rightarrow> val" where
  "FilenameColumn p = VStr (filename (txn_source (post_entry p)))"

definition LineNoColumn :: "posting \<Rightarrow> val" where
  "LineNoColumn p = VInt (lineno (txn_source (post_entry p)))"

definition DateColumn :: "posting \<Rightarrow> val" where
  "DateColumn p = VDate (txn_date (post_entry p))"

definition YearColumn :: "posting \<Rightarrow> val" where
  "YearColumn p = VInt (year (txn_date (post_entry p)))"

definition MonthColumn :: "posting \<Rightarrow> val" where
  "MonthColumn p = VInt (month (txn_date (post_entry p)))"

definition DayColumn :: "posting \<Rightarrow> val" where
  "DayColumn p = VInt (day (txn_date (post_entry p)))"

definition FlagColumn :: "posting \<Rightarrow> val" where
  "FlagColumn p = VStr (txn_flag (post_entry p))"

definition PayeeColumn :: "posting \<Rightarrow> val" where
  "PayeeColumn p = or_empty_str (txn_payee (post_entry p))"

definition NarrationColumn :: "posting \<Rightarrow> val" where
  "NarrationColumn p = opt_str (txn_narration (post_entry p))"

definition TagsColumn :: "posting \<Rightarrow> val" where
  "TagsColumn p = or_EMPTY_SET (txn_tags (post_entry p))"

definition LinksColumn :: "posting \<Rightarrow> val" where
  "LinksColumn p = or_EMPTY_SET (txn_links (post_entry p))"

definition PostingFlagColumn :: "posting \<Rightarrow> val" where
  "PostingFlagColumn p = opt_str (post_flag p)"

definition AccountColumn :: "posting \<Rightarrow> val" where
  "AccountColumn p = VStr (post_account p)"

definition NumberColumn :: "posting \<Rightarrow> val" where
  "NumberColumn p = VDec (position_number (post_position p))"

definition CurrencyColumn :: "posting \<Rightarrow> val" where
  "CurrencyColumn p = VStr (lot_currency (position_lot (post_position p)))"

text \<open>
  \<^verbatim>\<open>ZERO\<close> is imported from \<^verbatim>\<open>beancount.core.amount\<close>. Modelled from the spec: the
  numeric zero value, the decimal number 0.
\<close>

definition ZERO :: decimal where
  "ZERO = Dec 0 0"

text \<open>
  The cost accessors test \<^verbatim>\<open>posting.position.lot.cost\<close> for truth. \<^verbatim>\<open>None\<close> is false;
  the truth value of an \<^verbatim>\<open>Amount\<close> is decided by that class, outside the sources at
  hand, and is the parameter \<open>amount_bool\<close>.
\<close>

definition CostNumberColumn :: "(amount \<Rightarrow> bool) \<Rightarrow> posting \<Rightarrow> val" where
  "CostNumberColumn amount_bool p =
     (case lot_cost (position_lot (post_position p)) of
        None \<Rightarrow> VDec ZERO
      | Some c \<Rightarrow> if amount_bool c then VDec (amount_number c) else VDec ZERO)"

definition CostCurrencyColumn :: "(amount \<Rightarrow> bool) \<Rightarrow> posting \<Rightarrow> val" where
  "CostCurrencyColumn amount_bool p =
     (case lot_cost (position_lot (post_position p)) of
        None \<Rightarrow> VStr []
      | Some c \<Rightarrow> if amount_bool c then VStr (amount_currency c) else VStr [])"

definition ChangeColumn :: "posting \<Rightarrow> val" where
  "ChangeColumn p = VPosition (post_position p)"

definition PriceColumn :: "posting \<Rightarrow> val" where
  "PriceColumn p = (case post_price p of None \<Rightarrow> VNone | Some a \<Rightarrow> VAmount a)"

section \<open>Evaluation nodes, the store and the heap\<close>

definition bindE :: "error + 'a \<Rightarrow> ('a \<Rightarrow> error + 'b) \<Rightarrow> error + 'b" where
  "bindE m f = (case m of Inl e \<Rightarrow> Inl e | Inr x \<Rightarrow> f x)"

text \<open>
  Modelled from the spec: the base classes \<^verbatim>\<open>EvalNode\<close>, \<^verbatim>\<open>EvalFunction\<close> and
  \<^verbatim>\<open>EvalAggregator\<close> of \<^verbatim>\<open>query_compile\<close> are not part of the sources at hand. The
  spec describes a node as a fixed output type decided at construction, an ordered list of
  operand nodes, and an evaluation operation taking a row context; operands are evaluated
  eagerly, left to right. An operand is an output type and its evaluation \<open>call\<close> (the
  \<^verbatim>\<open>__call__\<close> of the node), which may raise.
\<close>

record 'r node =
  dtype :: pytype
  call :: "'r \<Rightarrow> error + val"

fun eval_args :: "'r node list \<Rightarrow> 'r \<Rightarrow> error + val list" where
  "eval_args [] r = Inr []"
| "eval_args (n # ns) r =
     bindE (call n r) (\<lambda>v. bindE (eval_args ns r) (\<lambda>vs. Inr (v # vs)))"

text \<open>\<^verbatim>\<open>self.eval_args(posting)[0]\<close>\<close>

definition eval_arg0 :: "'r node list \<Rightarrow> 'r \<Rightarrow> error + val" where
  "eval_arg0 ops r =
     bindE (eval_args ops r) (\<lambda>vs. case vs of [] \<Rightarrow> Inl IndexError | v # _ \<Rightarrow> Inr v)"

text \<open>The function and aggregator classes of the module.\<close>

datatype function_class =
    C_Length | C_Str | C_Year | C_Month | C_Day | C_Weekday | C_Parent
  | C_UnitsPosition | C_CostPosition
  | C_Count | C_Sum | C_SumAmount | C_SumPosition | C_SumInventory
  | C_First | C_Last | C_Min | C_Max
  | C_MatchAccount

text \<open>
  An instance of a function or aggregator class: its class, its operands, its output type
  and, for an aggregator, the handle that \<^verbatim>\<open>allocate\<close> sets. Before \<^verbatim>\<open>allocate\<close> the
  attribute \<^verbatim>\<open>handle\<close> does not exist.
\<close>

record 'r evalfunction =
  cls :: function_class
  operands :: "'r node list"
  out_dtype :: pytype
  handle :: "nat option"

text \<open>
  The store is the executor's: the spec describes it as dict-like, read and written by
  handle. A slot that was never written is absent, and reading it raises. The objects of
  class \<^verbatim>\<open>Inventory\<close> live in a heap: \<^verbatim>\<open>Inventory()\<close> allocates a cell, a slot or an
  operand value refers to it as \<open>VInv a\<close>, and the \<^verbatim>\<open>add_*\<close> methods change the cell in
  place. The contents of a cell have the type \<open>'i\<close>.
\<close>

record 'i state =
  store :: "nat \<rightharpoonup> val"
  heap :: "'i list"

text \<open>
  The class \<^verbatim>\<open>Inventory\<close> of \<^verbatim>\<open>beancount.core.inventory\<close> is outside the sources at
  hand and is a parameter: the contents of a new inventory, and the three methods. A method
  receives the contents of the object it is called on, the argument and the heap (to read
  an argument that is itself an inventory), and returns the new contents or raises: the
  methods are taken to change the object they are called on and nothing else.
\<close>

record 'i inventory_class =
  Inventory :: 'i
  add_amount :: "'i \<Rightarrow> val \<Rightarrow> 'i list \<Rightarrow> error + 'i"
  add_position :: "'i \<Rightarrow> val \<Rightarrow> 'i list \<Rightarrow> error + 'i"
  add_inventory :: "'i \<Rightarrow> val \<Rightarrow> 'i list \<Rightarrow> error + 'i"

text \<open>\<^verbatim>\<open>self.handle\<close>\<close>

definition get_handle :: "'r evalfunction \<Rightarrow> error + nat" where
  "get_handle agg = (case handle agg of None \<Rightarrow> Inl AttributeError | Some h \<Rightarrow> Inr h)"

text \<open>\<^verbatim>\<open>store[h]\<close>\<close>

definition getitem :: "'i state \<Rightarrow> nat \<Rightarrow> error + val" where
  "getitem st h = (case store st h of None \<Rightarrow> Inl KeyError | Some v \<Rightarrow> Inr v)"

text \<open>\<^verbatim>\<open>store[h] = v\<close>\<close>

definition setitem :: "'i state \<Rightarrow> nat \<Rightarrow> val \<Rightarrow> 'i state" where
  "setitem st h v = st\<lparr>store := (store st)(h \<mapsto> v)\<rparr>"

text \<open>\<^verbatim>\<open>inventory.Inventory()\<close>: a new object in a new cell.\<close>

definition new_Inventory :: "'i inventory_class \<Rightarrow> 'i state \<Rightarrow> val \<times> 'i state" where
  "new_Inventory K st = (VInv (length (heap st)), st\<lparr>heap := heap st @ [Inventory K]\<rparr>)"

text \<open>
  \<^verbatim>\<open>self.dtype()\<close>: the type called with no argument. \<^verbatim>\<open>datetime.date()\<close> raises, as
  the constructor requires a year, a month and a day. Floats, lists, plain objects and the
  classes outside the sources at hand have no value in the model.
\<close>

definition dtype_call ::
  "'i inventory_class \<Rightarrow> pytype \<Rightarrow> 'i state \<Rightarrow> error + val \<times> 'i state" where
  "dtype_call K t st =
     (case t of
        TInt \<Rightarrow> Inr (VInt 0, st)
      | TDecimal \<Rightarrow> Inr (VDec (Dec 0 0), st)
      | TStr \<Rightarrow> Inr (VStr [], st)
      | TBool \<Rightarrow> Inr (VBool False, st)
      | TSet \<Rightarrow> Inr (VSet {}, st)
      | TDate \<Rightarrow> Inl TypeError
      | TInventory \<Rightarrow> Inr (new_Inventory K st)
      | _ \<Rightarrow> Inl NotModelled)"

section \<open>Aggregating functions\<close>

text \<open>
  Modelled from the spec: the allocator is the executor's; \<^verbatim>\<open>allocate()\<close> returns a
  handle that is unique within one compiled plan. It is a counter here.
\<close>

definition allocate :: "'r evalfunction \<Rightarrow> nat \<Rightarrow> 'r evalfunction \<times> nat" where
  "allocate agg allocator = (agg\<lparr>handle := Some allocator\<rparr>, Suc allocator)"



subsection \<open>Count\<close>


definition Count_initialize :: "'r evalfunction \<Rightarrow> 'i state \<Rightarrow> error + 'i state" where
  "Count_initialize agg st = bindE (get_handle agg) (\<lambda>h. Inr (setitem st h (VInt 0)))"

definition Count_update :: "'r evalfunction \<Rightarrow> 'i state \<Rightarrow> 'r \<Rightarrow> error + 'i state" where
  "Count_update agg st unused_ontext =
     bindE (get_handle agg) (\<lambda>h.
     bindE (getitem st h) (\<lambda>cur.
     bindE (py_add cur (VInt 1)) (\<lambda>new.
     Inr (setitem st h new))))"

definition Count_finalize :: "'r evalfunction \<Rightarrow> 'i state \<Rightarrow> error + val" where
  "Count_finalize agg st = bindE (get_handle agg) (\<lambda>h. getitem st h)"

subsection \<open>Sum\<close>


definition Sum_initialize ::
  "'i inventory_class \<Rightarrow> 'r evalfunction \<Rightarrow> 'i state \<Rightarrow> error + 'i state" where
  "Sum_initialize K agg st =
     bindE (dtype_call K (out_dtype agg) st) (\<lambda>(z, st1).
     bindE (get_handle agg) (\<lambda>h.
     Inr (setitem st1 h z)))"

definition Sum_update :: "'r evalfunction \<Rightarrow> 'i state \<Rightarrow> 'r \<Rightarrow> error + 'i state" where
  "Sum_update agg st posting =
     bindE (eval_arg0 (operands agg) posting) (\<lambda>value.
     bindE (get_handle agg) (\<lambda>h.
     bindE (getitem st h) (\<lambda>cur.
     bindE (py_add cur value) (\<lambda>new.
     Inr (setitem st h new)))))"

definition Sum_finalize :: "'r evalfunction \<Rightarrow> 'i state \<Rightarrow> error + val" where
  "Sum_finalize agg st = bindE (get_handle agg) (\<lambda>h. getitem st h)"

subsection \<open>SumBase, SumAmount, SumPosition, SumInventory\<close>


definition SumBase_initialize ::
  "'i inventory_class \<Rightarrow> 'r evalfunction \<Rightarrow> 'i state \<Rightarrow> error + 'i state" where
  "SumBase_initialize K agg st =
     (case new_Inventory K st of (obj, st1) \<Rightarrow>
        bindE (get_handle agg) (\<lambda>h. Inr (setitem st1 h obj)))"

definition SumBase_finalize :: "'r evalfunction \<Rightarrow> 'i state \<Rightarrow> error + val" where
  "SumBase_finalize agg st = bindE (get_handle agg) (\<lambda>h. getitem st h)"

text \<open>
  \<^verbatim>\<open>store[self.handle].add_amount(value)\<close> and its two siblings: the method is looked
  up on the object in the slot, which has it only when it is an inventory, and changes
  that object in place; the store itself is not assigned. A reference always points to
  an object, so a state whose slot refers to no cell is outside the model.
\<close>

definition call_method ::
  "('i \<Rightarrow> val \<Rightarrow> 'i list \<Rightarrow> error + 'i) \<Rightarrow> 'i state \<Rightarrow> val \<Rightarrow> val \<Rightarrow> error + 'i state" where
  "call_method m st obj value =
     (case obj of
        VInv a \<Rightarrow>
          if a < length (heap st)
          then bindE (m (heap st ! a) value (heap st)) (\<lambda>new.
               Inr (st\<lparr>heap := (heap st)[a := new]\<rparr>))
          else Inl NotModelled
      | VAmount _ \<Rightarrow> Inl NotModelled
      | VPosition _ \<Rightarrow> Inl NotModelled
      | _ \<Rightarrow> Inl AttributeError)"

definition SumAmount_update ::
  "'i inventory_class \<Rightarrow> 'r evalfunction \<Rightarrow> 'i state \<Rightarrow> 'r \<Rightarrow> error + 'i state" where
  "SumAmount_update K agg st posting =
     bindE (eval_arg0 (operands agg) posting) (\<lambda>value.
     bindE (get_handle agg) (\<lambda>h.
     bindE (getitem st h) (\<lambda>obj.
     call_method (add_amount K) st obj value)))"

definition SumPosition_update ::
  "'i inventory_class \<Rightarrow> 'r evalfunction \<Rightarrow> 'i state \<Rightarrow> 'r \<Rightarrow> error + 'i state" where
  "SumPosition_update K agg st posting =
     bindE (eval_arg0 (operands agg) posting) (\<lambda>value.
     bindE (get_handle agg) (\<lambda>h.
     bindE (getitem st h) (\<lambda>obj.
     call_method (add_position K) st obj value)))"

definition SumInventory_update ::
  "'i inventory_class \<Rightarrow> 'r evalfunction \<Rightarrow> 'i state \<Rightarrow> 'r \<Rightarrow> error + 'i state" where
  "SumInventory_update K agg st posting =
     bindE (eval_arg0 (operands agg) posting) (\<lambda>value.
     bindE (get_handle agg) (\<lambda>h.
     bindE (getitem st h) (\<lambda>obj.
     call_method (add_inventory K) st obj value)))"

subsection \<open>First and Last\<close>


definition First_initialize :: "'r evalfunction \<Rightarrow> 'i state \<Rightarrow> error + 'i state" where
  "First_initialize agg st = bindE (get_handle agg) (\<lambda>h. Inr (setitem st h VNone))"

definition First_update :: "'r evalfunction \<Rightarrow> 'i state \<Rightarrow> 'r \<Rightarrow> error + 'i state" where
  "First_update agg st posting =
     bindE (get_handle agg) (\<lambda>h.
     bindE (getitem st h) (\<lambda>cur.
     if cur = VNone
     then bindE (eval_arg0 (operands agg) posting) (\<lambda>value. Inr (setitem st h value))
     else Inr st))"

definition First_finalize :: "'r evalfunction \<Rightarrow> 'i state \<Rightarrow> error + val" where
  "First_finalize agg st = bindE (get_handle agg) (\<lambda>h. getitem st h)"


definition Last_initialize :: "'r evalfunction \<Rightarrow> 'i state \<Rightarrow> error + 'i state" where
  "Last_initialize agg st = bindE (get_handle agg) (\<lambda>h. Inr (setitem st h VNone))"

definition Last_update :: "'r evalfunction \<Rightarrow> 'i state \<Rightarrow> 'r \<Rightarrow> error + 'i state" where
  "Last_update agg st posting =
     bindE (eval_arg0 (operands agg) posting) (\<lambda>value.
     bindE (get_handle agg) (\<lambda>h.
     Inr (setitem st h value)))"

definition Last_finalize :: "'r evalfunction \<Rightarrow> 'i state \<Rightarrow> error + val" where
  "Last_finalize agg st = bindE (get_handle agg) (\<lambda>h. getitem st h)"

subsection \<open>Min and Max\<close>


definition Min_initialize ::
  "'i inventory_class \<Rightarrow> 'r evalfunction \<Rightarrow> 'i state \<Rightarrow> error + 'i state" where
  "Min_initialize K agg st =
     bindE (dtype_call K (out_dtype agg) st) (\<lambda>(z, st1).
     bindE (get_handle agg) (\<lambda>h.
     Inr (setitem st1 h z)))"

definition Min_update :: "'r evalfunction \<Rightarrow> 'i state \<Rightarrow> 'r \<Rightarrow> error + 'i state" where
  "Min_update agg st posting =
     bindE (eval_arg0 (operands agg) posting) (\<lambda>value.
     bindE (get_handle agg) (\<lambda>h.
     bindE (getitem st h) (\<lambda>cur.
     bindE (py_lt value cur) (\<lambda>b.
     if b then Inr (setitem st h value) else Inr st))))"

definition Min_finalize :: "'r evalfunction \<Rightarrow> 'i state \<Rightarrow> error + val" where
  "Min_finalize agg st = bindE (get_handle agg) (\<lambda>h. getitem st h)"


definition Max_initialize ::
  "'i inventory_class \<Rightarrow> 'r evalfunction \<Rightarrow> 'i state \<Rightarrow> error + 'i state" where
  "Max_initialize K agg st =
     bindE (dtype_call K (out_dtype agg) st) (\<lambda>(z, st1).
     bindE (get_handle agg) (\<lambda>h.
     Inr (setitem st1 h z)))"

definition Max_update :: "'r evalfunction \<Rightarrow> 'i state \<Rightarrow> 'r \<Rightarrow> error + 'i state" where
  "Max_update agg st posting =
     bindE (eval_arg0 (operands agg) posting) (\<lambda>value.
     bindE (get_handle agg) (\<lambda>h.
     bindE (getitem st h) (\<lambda>cur.
     bindE (py_gt value cur) (\<lambda>b.
     if b then Inr (setitem st h value) else Inr st))))"

definition Max_finalize :: "'r evalfunction \<Rightarrow> 'i state \<Rightarrow> error + val" where
  "Max_finalize agg st = bindE (get_handle agg) (\<lambda>h. getitem st h)"

subsection \<open>The methods of an aggregator, by its class\<close>

text \<open>
  \<^verbatim>\<open>agg.initialize(store)\<close>, \<^verbatim>\<open>agg.update(store, row)\<close> and \<^verbatim>\<open>agg.finalize(store)\<close>
  dispatch on the class of the instance; the classes that are not aggregators have no such
  methods.
\<close>

definition initialize ::
  "'i inventory_class \<Rightarrow> 'r evalfunction \<Rightarrow> 'i state \<Rightarrow> error + 'i state" where
  "initialize K agg st =
     (case cls agg of
        C_Count \<Rightarrow> Count_initialize agg st
      | C_Sum \<Rightarrow> Sum_initialize K agg st
      | C_SumAmount \<Rightarrow> SumBase_initialize K agg st
      | C_SumPosition \<Rightarrow> SumBase_initialize K agg st
      | C_SumInventory \<Rightarrow> SumBase_initialize K agg st
      | C_First \<Rightarrow> First_initialize agg st
      | C_Last \<Rightarrow> Last_initialize agg st
      | C_Min \<Rightarrow> Min_initialize K agg st
      | C_Max \<Rightarrow> Max_initialize K agg st
      | _ \<Rightarrow> Inl AttributeError)"

definition update ::
  "'i inventory_class \<Rightarrow> 'r evalfunction \<Rightarrow> 'i state \<Rightarrow> 'r \<Rightarrow> error + 'i state" where
  "update K agg st row =
     (case cls agg of
        C_Count \<Rightarrow> Count_update agg st row
      | C_Sum \<Rightarrow> Sum_update agg st row
      | C_SumAmount \<Rightarrow> SumAmount_update K agg st row
      | C_SumPosition \<Rightarrow> SumPosition_update K agg st row
      | C_SumInventory \<Rightarrow> SumInventory_update K agg st row
      | C_First \<Rightarrow> First_update agg st row
      | C_Last \<Rightarrow> Last_update agg st row
      | C_Min \<Rightarrow> Min_update agg st row
      | C_Max \<Rightarrow> Max_update agg st row
      | _ \<Rightarrow> Inl AttributeError)"

definition finalize :: "'r evalfunction \<Rightarrow> 'i state \<Rightarrow> error + val" where
  "finalize agg st =
     (case cls agg of
        C_Count \<Rightarrow> Count_finalize agg st
      | C_Sum \<Rightarrow> Sum_finalize agg st
      | C_SumAmount \<Rightarrow> SumBase_finalize agg st
      | C_SumPosition \<Rightarrow> SumBase_finalize agg st
      | C_SumInventory \<Rightarrow> SumBase_finalize agg st
      | C_First \<Rightarrow> First_finalize agg st
      | C_Last \<Rightarrow> Last_finalize agg st
      | C_Min \<Rightarrow> Min_finalize agg st
      | C_Max \<Rightarrow> Max_finalize agg st
      | _ \<Rightarrow> Inl AttributeError)"

text \<open>
  Modelled from the spec: the executor is not part of the sources at hand. It drives the
  lifecycle of one group: \<^verbatim>\<open>initialize\<close> once before any row, \<^verbatim>\<open>update\<close> once per row
  in arrival order, \<^verbatim>\<open>finalize\<close> once after the last row. An exception ends the query.
\<close>

fun update_rows ::
  "('i state \<Rightarrow> 'r \<Rightarrow> error + 'i state) \<Rightarrow> 'i state \<Rightarrow> 'r list \<Rightarrow> error + 'i state" where
  "update_rows upd st [] = Inr st"
| "update_rows upd st (r # rs) = bindE (upd st r) (\<lambda>st1. update_rows upd st1 rs)"

definition run_group ::
  "('i state \<Rightarrow> error + 'i state) \<Rightarrow> ('i state \<Rightarrow> 'r \<Rightarrow> error + 'i state) \<Rightarrow>
   ('i state \<Rightarrow> error + val) \<Rightarrow> 'i state \<Rightarrow> 'r list \<Rightarrow> error + val" where
  "run_group init upd fin st rows =
     bindE (init st) (\<lambda>st0. bindE (update_rows upd st0 rows) fin)"

section \<open>The function defined only on entries\<close>

text \<open>
  \<^verbatim>\<open>re.compile(pattern, re.IGNORECASE).search\<close>: the regular expression engine is the
  standard library's and is a parameter. \<open>re_compile pattern ignorecase\<close> is \<open>None\<close> when
  the pattern is not a valid expression, and otherwise the search, which tells whether the
  expression matches somewhere in a string. A pattern that is not a string is a type error.
\<close>

definition MatchAccount_call ::
  "(string \<Rightarrow> bool \<Rightarrow> (string \<Rightarrow> bool) option) \<Rightarrow> entry node list \<Rightarrow> entry \<Rightarrow> error + val" where
  "MatchAccount_call re_compile ops entry =
     (case entry of
        Directive _ _ _ \<Rightarrow> Inr (VBool False)
      | TransactionEntry t \<Rightarrow>
          bindE (eval_arg0 ops entry) (\<lambda>pattern.
          case pattern of
            VStr pat \<Rightarrow>
              (case re_compile pat True of
                 None \<Rightarrow> Inl ReError
               | Some search \<Rightarrow>
                   Inr (VBool (list_ex (\<lambda>posting. search (post_account posting))
                                 (txn_postings t))))
          | _ \<Rightarrow> Inl TypeError))"

section \<open>Registries and environments\<close>

text \<open>
  A key of a function table is a bare name, or a name with the type of an operand
  (\<^verbatim>\<open>('sum', amount.Amount)\<close>). A table is a dictionary.
\<close>

datatype key = Name string | Typed string pytype

definition SIMPLE_FUNCTIONS :: "key \<rightharpoonup> function_class" where
  "SIMPLE_FUNCTIONS = map_of
     [(Name ''str'', C_Str),
      (Name ''length'', C_Length),
      (Name ''parent'', C_Parent),
      (Typed ''units'' TPosition, C_UnitsPosition),
      (Typed ''cost'' TPosition, C_CostPosition),
      (Name ''year'', C_Year),
      (Name ''month'', C_Month),
      (Name ''day'', C_Day),
      (Name ''weekday'', C_Weekday)]"

definition AGGREGATOR_FUNCTIONS :: "key \<rightharpoonup> function_class" where
  "AGGREGATOR_FUNCTIONS = map_of
     [(Typed ''sum'' TAmount, C_SumAmount),
      (Typed ''sum'' TPosition, C_SumPosition),
      (Typed ''sum'' TInventory, C_SumInventory),
      (Name ''sum'', C_Sum),
      (Name ''count'', C_Count),
      (Name ''first'', C_First),
      (Name ''last'', C_Last),
      (Name ''min'', C_Min),
      (Name ''max'', C_Max)]"

definition ENTRY_FUNCTIONS :: "key \<rightharpoonup> function_class" where
  "ENTRY_FUNCTIONS = map_of [(Name ''has_account'', C_MatchAccount)]"

text \<open>
  \<^verbatim>\<open>functions = copy.copy(SIMPLE_FUNCTIONS); functions.update(ENTRY_FUNCTIONS)\<close>:
  \<^verbatim>\<open>dict.update\<close> lets the entries of its argument win.
\<close>

definition FilterEntriesEnvironment_functions :: "key \<rightharpoonup> function_class" where
  "FilterEntriesEnvironment_functions = SIMPLE_FUNCTIONS ++ ENTRY_FUNCTIONS"

definition FilterPostingsEnvironment_functions :: "key \<rightharpoonup> function_class" where
  "FilterPostingsEnvironment_functions = SIMPLE_FUNCTIONS"

definition TargetsEnvironment_functions :: "key \<rightharpoonup> function_class" where
  "TargetsEnvironment_functions = FilterPostingsEnvironment_functions ++ AGGREGATOR_FUNCTIONS"

definition TargetsEnvironment_wildcard_columns :: "string list" where
  "TargetsEnvironment_wildcard_columns =
     [''date'', ''flag'', ''payee'', ''narration'', ''change'']"



section \<open>Notions used to state the properties\<close>

text \<open>The first value of a list that is not \<^verbatim>\<open>None\<close>, and \<^verbatim>\<open>None\<close> when there is none.\<close>

fun first_not_None :: "val list \<Rightarrow> val" where
  "first_not_None [] = VNone"
| "first_not_None (v # vs) = (if v = VNone then first_not_None vs else v)"



text \<open>
  The minimum and the maximum of a list of values under \<^verbatim>\<open><\<close>: a member that no member
  is less than (greater than). On a type that \<^verbatim>\<open><\<close> orders totally this is the least
  (greatest) member, up to the equality of the order.
\<close>

definition least_of :: "val \<Rightarrow> val list \<Rightarrow> bool" where
  "least_of r vs \<longleftrightarrow> r \<in> set vs \<and> (\<forall>v \<in> set vs. py_lt v r = Inr False)"

definition greatest_of :: "val \<Rightarrow> val list \<Rightarrow> bool" where
  "greatest_of r vs \<longleftrightarrow> r \<in> set vs \<and> (\<forall>v \<in> set vs. py_gt v r = Inr False)"

text \<open>
  The exact sum of a list of decimal numbers, written with the least exponent among 0 (the
  exponent of the initial \<^verbatim>\<open>Decimal()\<close>) and the exponents of the numbers; and the
  condition that the magnitudes of the numbers, written with that exponent, add up to at
  most \<open>prec\<close> digits, so that no partial sum in any order exceeds the precision.
\<close>

definition least_expo :: "decimal list \<Rightarrow> int" where
  "least_expo ds = Min (set (0 # map expo ds))"

definition exact_sum :: "decimal list \<Rightarrow> decimal" where
  "exact_sum ds = Dec (\<Sum>d\<leftarrow>ds. aligned (least_expo ds) d) (least_expo ds)"

definition fits_precision :: "decimal list \<Rightarrow> bool" where
  "fits_precision ds \<longleftrightarrow> (\<Sum>d\<leftarrow>ds. \<bar>aligned (least_expo ds) d\<bar>) < 10 ^ prec"

section \<open>Example inputs\<close>

text \<open>
  A small ledger for the concrete evaluations below: a transaction on line \<open>n\<close> of a
  file, with a narration and without payee, tags or links, and a posting of that
  transaction with \<open>n\<close> units of a currency, without cost and without price. The operand
  \<open>number_node\<close> is the column \<^verbatim>\<open>number\<close> of the postings environment. An aggregator of
  the examples has this one operand and the handle 0, and the store starts empty.
\<close>

abbreviation example_transaction :: "int \<Rightarrow> transaction" where
  "example_transaction n \<equiv>
     Transaction (Source ''ledger.beancount'' n) (Date 2014 1 1) ''*'' None (Some ''Lunch'')
       None None []"

abbreviation example_posting :: "int \<Rightarrow> posting" where
  "example_posting n \<equiv>
     Posting (example_transaction n) None ''Expenses:Food''
       (Position (Lot ''USD'' None) (Dec n 0)) None"

abbreviation number_node :: "posting node" where
  "number_node \<equiv> \<lparr>dtype = TDecimal, call = \<lambda>p. Inr (NumberColumn p)\<rparr>"

abbreviation example_aggregator :: "function_class \<Rightarrow> pytype \<Rightarrow> posting evalfunction" where
  "example_aggregator c t \<equiv>
     \<lparr>cls = c, operands = [number_node], out_dtype = t, handle = Some 0\<rparr>"

abbreviation priced_posting :: "int \<Rightarrow> posting" where
  "priced_posting n \<equiv>
     Posting (example_transaction n) None ''Assets:Cash''
       (Position (Lot ''USD'' None) (Dec n 0)) (Some (Amount (Dec 125 (- 2)) ''CAD''))"

abbreviation price_node :: "posting node" where
  "price_node \<equiv> \<lparr>dtype = TAmount, call = \<lambda>p. Inr (PriceColumn p)\<rparr>"

abbreviation example_Inventory :: "unit inventory_class" where
  "example_Inventory \<equiv>
     \<lparr>Inventory = (), add_amount = \<lambda>i v hp. Inr (), add_position = \<lambda>i v hp. Inr (),
      add_inventory = \<lambda>i v hp. Inr ()\<rparr>"

abbreviation change_node :: "posting node" where
  "change_node \<equiv> \<lparr>dtype = TPosition, call = \<lambda>p. Inr (ChangeColumn p)\<rparr>"

text \<open>
  A stand-in for the class \<^verbatim>\<open>Inventory\<close> in the examples: the contents of an inventory
  are the list of the values added to it.
\<close>

abbreviation list_Inventory :: "val list inventory_class" where
  "list_Inventory \<equiv>
     \<lparr>Inventory = [], add_amount = \<lambda>i v hp. Inr (i @ [v]),
      add_position = \<lambda>i v hp. Inr (i @ [v]), add_inventory = \<lambda>i v hp. Inr (i @ [v])\<rparr>"

abbreviation two_sums_state :: "val list state" where
  "two_sums_state \<equiv>
     \<lparr>store = [0 \<mapsto> VInv 0, 1 \<mapsto> VInv 1],
      heap = [[], [VPosition (Position (Lot ''CAD'' None) (Dec 7 0))]]\<rparr>"

abbreviation sum_position_example :: "posting evalfunction" where
  "sum_position_example \<equiv>
     \<lparr>cls = C_SumPosition, operands = [change_node], out_dtype = TInventory, handle = Some 0\<rparr>"

text \<open>
  A transaction with two postings, a directive that is not a transaction, a transaction
  without narration with one posting, a stand-in for the regular expression engine that
  searches for the pattern as a literal, and an operand that is a constant string.
\<close>

abbreviation lunch_transaction :: transaction where
  "lunch_transaction \<equiv>
     Transaction (Source ''ledger.beancount'' 12) (Date 2014 1 1) ''*'' None (Some ''Lunch'')
       None None
       [Posting (example_transaction 12) None ''Assets:Cash''
          (Position (Lot ''USD'' None) (Dec (- 10) 0)) None,
        Posting (example_transaction 12) None ''Expenses:Food''
          (Position (Lot ''USD'' None) (Dec 10 0)) None]"

abbreviation open_directive :: entry where
  "open_directive \<equiv> Directive ''Open'' (Source ''ledger.beancount'' 3) (Date 2014 1 1)"

abbreviation no_narration_posting :: posting where
  "no_narration_posting \<equiv>
     Posting
       (Transaction (Source ''ledger.beancount'' 20) (Date 2014 1 2) ''*'' (Some ''Cafe'') None
          None None [])
       None ''Expenses:Food'' (Position (Lot ''USD'' None) (Dec 4 0)) None"

abbreviation literal_search :: "string \<Rightarrow> bool \<Rightarrow> (string \<Rightarrow> bool) option" where
  "literal_search \<equiv> \<lambda>pat ignorecase. Some (\<lambda>s.
     list_ex (\<lambda>i. take (length pat) (drop i (if ignorecase then lower s else s))
                    = (if ignorecase then lower pat else pat))
       [0..<Suc (length s)])"

abbreviation constant_node :: "string \<Rightarrow> entry node" where
  "constant_node s \<equiv> \<lparr>dtype = TStr, call = \<lambda>e. Inr (VStr s)\<rparr>"

abbreviation raising_node :: "entry node" where
  "raising_node \<equiv> \<lparr>dtype = TStr, call = \<lambda>e. Inl TypeError\<rparr>"

abbreviation lineno_node :: "posting node" where
  "lineno_node \<equiv> \<lparr>dtype = TInt, call = \<lambda>p. Inr (LineNoColumn p)\<rparr>"

abbreviation example_state :: "unit state" where
  "example_state \<equiv> \<lparr>store = Map.empty, heap = []\<rparr>"

section \<open>Cost accessors on a position without a cost\<close>

text \<open>
  C7. For every posting whose position carries no cost (\<^verbatim>\<open>lot.cost\<close> is \<^verbatim>\<open>None\<close>), the
  accessor \<^verbatim>\<open>cost_number\<close> returns the numeric zero and the accessor \<^verbatim>\<open>cost_currency\<close>
  returns the empty string, whatever truth value the class \<^verbatim>\<open>Amount\<close> gives its
  instances. The accessors are total functions into values, so neither raises, and
  neither result is \<^verbatim>\<open>None\<close>.
\<close>

theorem cost_columns_no_cost:
  assumes "lot_cost (position_lot (post_position p)) = None"
  shows "CostNumberColumn amount_bool p = VDec ZERO
       \<and> CostCurrencyColumn amount_bool p = VStr ''''
       \<and> CostNumberColumn amount_bool p \<noteq> VNone
       \<and> CostCurrencyColumn amount_bool p \<noteq> VNone"
  using assms by (simp add: CostNumberColumn_def CostCurrencyColumn_def)

theorem cost_columns_no_cost_witness:
  "lot_cost (position_lot (post_position (example_posting 10))) = None
   \<and> CostNumberColumn (\<lambda>a. amount_number a \<noteq> ZERO) (example_posting 10) = VDec (Dec 0 0)
   \<and> CostCurrencyColumn (\<lambda>a. amount_number a \<noteq> ZERO) (example_posting 10) = VStr ''''"
  using cost_columns_no_cost [of "example_posting 10" "\<lambda>a. amount_number a \<noteq> ZERO"]
  by (simp add: ZERO_def)

section \<open>Auxiliary facts about the store\<close>

lemma bindE_Inl [simp]: "bindE (Inl e) f = Inl e"
  by (simp add: bindE_def)

lemma bindE_Inr [simp]: "bindE (Inr x) f = f x"
  by (simp add: bindE_def)

lemma bindE_eq_Inr: "bindE m f = Inr y \<longleftrightarrow> (\<exists>x. m = Inr x \<and> f x = Inr y)"
  by (cases m) simp_all

lemma get_handle_Some [simp]: "handle agg = Some h \<Longrightarrow> get_handle agg = Inr h"
  by (simp add: get_handle_def)

lemma get_handle_eq_Inr: "get_handle agg = Inr h \<longleftrightarrow> handle agg = Some h"
  by (simp add: get_handle_def split: option.splits)

lemma getitem_eq_Inr: "getitem st h = Inr v \<longleftrightarrow> store st h = Some v"
  by (simp add: getitem_def split: option.splits)

lemma getitem_Some [simp]: "store st h = Some v \<Longrightarrow> getitem st h = Inr v"
  by (simp add: getitem_def)

lemma store_setitem [simp]: "store (setitem st h v) = (store st)(h \<mapsto> v)"
  by (simp add: setitem_def)

lemma heap_setitem [simp]: "heap (setitem st h v) = heap st"
  by (simp add: setitem_def)

lemma py_add_int [simp]: "py_add (VInt i) (VInt j) = Inr (VInt (i + j))"
  by (simp add: py_add_def)

section \<open>Count\<close>

lemma Count_update_slot:
  assumes "handle agg = Some h" and "store st h = Some (VInt n)"
  shows "Count_update agg st row = Inr (setitem st h (VInt (n + 1)))"
  using assms by (simp add: Count_update_def)

lemma Count_update_rows:
  assumes "handle agg = Some h" and "store st h = Some (VInt n)"
  shows "\<exists>st1. update_rows (Count_update agg) st rows = Inr st1
           \<and> store st1 h = Some (VInt (n + int (length rows)))"
  using assms(2)
proof (induction rows arbitrary: st n)
  case Nil
  then show ?case by simp
next
  case (Cons r rs)
  have step: "Count_update agg st r = Inr (setitem st h (VInt (n + 1)))"
    using assms(1) Cons.prems by (rule Count_update_slot)
  have "store (setitem st h (VInt (n + 1))) h = Some (VInt (n + 1))" by simp
  from Cons.IH [OF this] obtain st1 where
    "update_rows (Count_update agg) (setitem st h (VInt (n + 1))) rs = Inr st1"
    "store st1 h = Some (VInt (n + 1 + int (length rs)))" by blast
  then show ?case using step by (simp add: add.assoc add.commute)
qed

text \<open>
  C5. For a \<^verbatim>\<open>Count\<close> aggregator with an allocated handle \<open>h\<close>, in every state and for
  every group of rows: \<^verbatim>\<open>initialize\<close> sets the slot \<open>h\<close> to 0; an \<^verbatim>\<open>update\<close> on a slot
  that holds the integer \<open>n\<close> sets it to \<open>n + 1\<close>, whatever the row and whatever the
  operands are (they are not evaluated); and \<^verbatim>\<open>initialize\<close>, one \<^verbatim>\<open>update\<close> per row and
  \<^verbatim>\<open>finalize\<close> return the number of rows.
\<close>

theorem Count_counts_rows:
  assumes "handle agg = Some h"
  shows "Count_initialize agg st = Inr (setitem st h (VInt 0))
       \<and> (\<forall>st' n row. store st' h = Some (VInt n) \<longrightarrow>
            Count_update agg st' row = Inr (setitem st' h (VInt (n + 1))))
       \<and> run_group (Count_initialize agg) (Count_update agg) (Count_finalize agg) st rows
           = Inr (VInt (int (length rows)))"
proof -
  have i: "Count_initialize agg st = Inr (setitem st h (VInt 0))"
    using assms by (simp add: Count_initialize_def)
  have u: "\<forall>st' n row. store st' h = Some (VInt n) \<longrightarrow>
            Count_update agg st' row = Inr (setitem st' h (VInt (n + 1)))"
    using assms by (simp add: Count_update_slot)
  have "store (setitem st h (VInt 0)) h = Some (VInt 0)" by simp
  from Count_update_rows [OF assms this, of rows] obtain st1 where
    "update_rows (Count_update agg) (setitem st h (VInt 0)) rows = Inr st1"
    "store st1 h = Some (VInt (int (length rows)))" by auto
  then have "run_group (Count_initialize agg) (Count_update agg) (Count_finalize agg) st rows
         = Inr (VInt (int (length rows)))"
    using assms i by (simp add: run_group_def Count_finalize_def)
  with i u show ?thesis by blast
qed

theorem Count_counts_rows_witness:
  "handle (example_aggregator C_Count TInt) = Some 0
   \<and> Count_initialize (example_aggregator C_Count TInt) example_state
       = Inr \<lparr>store = [0 \<mapsto> VInt 0], heap = []\<rparr>
   \<and> Count_update (example_aggregator C_Count TInt)
         (\<lparr>store = [0 \<mapsto> VInt 6], heap = []\<rparr> :: unit state) (example_posting 20)
       = Inr \<lparr>store = [0 \<mapsto> VInt 7], heap = []\<rparr>
   \<and> run_group
        (Count_initialize (example_aggregator C_Count TInt))
        (Count_update (example_aggregator C_Count TInt))
        (Count_finalize (example_aggregator C_Count TInt))
        example_state [example_posting 10, example_posting 20, example_posting 5]
       = Inr (VInt 3)"
proof -
  let ?agg = "example_aggregator C_Count TInt"
  let ?st6 = "\<lparr>store = [0 \<mapsto> VInt 6], heap = []\<rparr> :: unit state"
  let ?rows = "[example_posting 10, example_posting 20, example_posting 5]"
  have h: "handle ?agg = Some 0" by simp
  note t = Count_counts_rows [OF h, of example_state ?rows]
  from t have "Count_initialize ?agg example_state = Inr (setitem example_state 0 (VInt 0))"
    by blast
  then have i: "Count_initialize ?agg example_state
       = Inr \<lparr>store = [0 \<mapsto> VInt 0], heap = []\<rparr>"
    by (simp add: setitem_def)
  have "store ?st6 0 = Some (VInt 6)"
    by simp
  with t have "Count_update ?agg ?st6 (example_posting 20)
       = Inr (setitem ?st6 0 (VInt (6 + 1)))"
    by blast
  then have u: "Count_update ?agg ?st6 (example_posting 20)
       = Inr \<lparr>store = [0 \<mapsto> VInt 7], heap = []\<rparr>"
    by (simp add: setitem_def)
  from t have "run_group (Count_initialize ?agg) (Count_update ?agg) (Count_finalize ?agg)
        example_state ?rows = Inr (VInt (int (length ?rows)))"
    by blast
  then have r: "run_group (Count_initialize ?agg) (Count_update ?agg) (Count_finalize ?agg)
        example_state ?rows = Inr (VInt 3)"
    by simp
  from h i u r show ?thesis by (intro conjI)
qed

section \<open>First and Last\<close>

lemma map_eval_Cons:
  assumes "map f (r # rs) = map Inr vs"
  obtains v vs' where "vs = v # vs'" and "f r = Inr v" and "map f rs = map Inr vs'"
  using assms by (cases vs) auto

lemma First_update_rows:
  assumes "handle agg = Some h"
    and "store st h = Some cur"
    and "map (eval_arg0 (operands agg)) rows = map Inr vs"
  shows "\<exists>st1. update_rows (First_update agg) st rows = Inr st1
           \<and> store st1 h = Some (if cur = VNone then first_not_None vs else cur)"
  using assms(2,3)
proof (induction rows arbitrary: st cur vs)
  case Nil
  then show ?case by simp
next
  case (Cons r rs)
  from Cons.prems(2) obtain v vs' where vs: "vs = v # vs'"
    and v: "eval_arg0 (operands agg) r = Inr v"
    and rest: "map (eval_arg0 (operands agg)) rs = map Inr vs'"
    by (rule map_eval_Cons)
  show ?case
  proof (cases "cur = VNone")
    case True
    then have step: "First_update agg st r = Inr (setitem st h v)"
      using assms(1) Cons.prems(1) v by (simp add: First_update_def)
    have "store (setitem st h v) h = Some v" by simp
    from Cons.IH [OF this rest] obtain st1 where
      "update_rows (First_update agg) (setitem st h v) rs = Inr st1"
      "store st1 h = Some (if v = VNone then first_not_None vs' else v)" by blast
    then show ?thesis using step True vs by simp
  next
    case False
    then have step: "First_update agg st r = Inr st"
      using assms(1) Cons.prems(1) by (simp add: First_update_def)
    from Cons.IH [OF Cons.prems(1) rest] obtain st1 where
      "update_rows (First_update agg) st rs = Inr st1"
      "store st1 h = Some (if cur = VNone then first_not_None vs' else cur)" by blast
    then show ?thesis using step False by simp
  qed
qed

lemma Last_update_rows:
  assumes "handle agg = Some h"
    and "store st h = Some cur"
    and "map (eval_arg0 (operands agg)) rows = map Inr vs"
  shows "\<exists>st1. update_rows (Last_update agg) st rows = Inr st1
           \<and> store st1 h = Some (last (cur # vs))"
  using assms(2,3)
proof (induction rows arbitrary: st cur vs)
  case Nil
  then show ?case by simp
next
  case (Cons r rs)
  from Cons.prems(2) obtain v vs' where vs: "vs = v # vs'"
    and v: "eval_arg0 (operands agg) r = Inr v"
    and rest: "map (eval_arg0 (operands agg)) rs = map Inr vs'"
    by (rule map_eval_Cons)
  have step: "Last_update agg st r = Inr (setitem st h v)"
    using assms(1) v by (simp add: Last_update_def)
  have "store (setitem st h v) h = Some v" by simp
  from Cons.IH [OF this rest] obtain st1 where
    "update_rows (Last_update agg) (setitem st h v) rs = Inr st1"
    "store st1 h = Some (last (v # vs'))" by blast
  then show ?case using step vs by simp
qed

lemma first_not_None_hd: "vs \<noteq> [] \<Longrightarrow> hd vs \<noteq> VNone \<Longrightarrow> first_not_None vs = hd vs"
  by (cases vs) simp_all

text \<open>
  C6 (amended). For an aggregator with an allocated handle and rows whose operand
  evaluates to \<open>v1..vn\<close>: \<^verbatim>\<open>First\<close> finalizes to the first of the values that is not
  \<^verbatim>\<open>None\<close>, and to \<^verbatim>\<open>None\<close> when there is none; so it finalizes to \<open>v1\<close> whenever
  \<open>n \<ge> 1\<close> and \<open>v1\<close> is not \<^verbatim>\<open>None\<close>. \<^verbatim>\<open>Last\<close> finalizes to \<open>vn\<close> when \<open>n \<ge> 1\<close>.
\<close>

theorem First_Last_finalize:
  assumes "handle agg = Some h"
    and "map (eval_arg0 (operands agg)) rows = map Inr vs"
  shows "run_group (First_initialize agg) (First_update agg) (First_finalize agg) st rows
           = Inr (first_not_None vs)
       \<and> (vs \<noteq> [] \<and> hd vs \<noteq> VNone \<longrightarrow>
            run_group (First_initialize agg) (First_update agg) (First_finalize agg) st rows
              = Inr (hd vs))
       \<and> (vs \<noteq> [] \<longrightarrow>
            run_group (Last_initialize agg) (Last_update agg) (Last_finalize agg) st rows
              = Inr (last vs))"
proof -
  have s0: "store (setitem st h VNone) h = Some VNone" by simp
  from First_update_rows [OF assms(1) s0 assms(2)] obtain st1 where
    "update_rows (First_update agg) (setitem st h VNone) rows = Inr st1"
    "store st1 h = Some (first_not_None vs)" by auto
  then have f: "run_group (First_initialize agg) (First_update agg) (First_finalize agg) st rows
           = Inr (first_not_None vs)"
    using assms(1) by (simp add: run_group_def First_initialize_def First_finalize_def)
  from Last_update_rows [OF assms(1) s0 assms(2)] obtain st2 where
    "update_rows (Last_update agg) (setitem st h VNone) rows = Inr st2"
    "store st2 h = Some (last (VNone # vs))" by auto
  then have l: "run_group (Last_initialize agg) (Last_update agg) (Last_finalize agg) st rows
           = Inr (last (VNone # vs))"
    using assms(1) by (simp add: run_group_def Last_initialize_def Last_finalize_def)
  show ?thesis using f l by (simp add: first_not_None_hd)
qed

lemma eval_arg0_single [simp]: "eval_arg0 [n] r = call n r"
  by (cases "call n r") (simp_all add: eval_arg0_def)

theorem First_Last_finalize_witness:
  "handle (example_aggregator C_First TDecimal) = Some 0
   \<and> handle (example_aggregator C_Last TDecimal) = Some 0
   \<and> map (eval_arg0 (operands (example_aggregator C_First TDecimal)))
        [example_posting 10, example_posting 20, example_posting 5]
       = map Inr [VDec (Dec 10 0), VDec (Dec 20 0), VDec (Dec 5 0)]
   \<and> map (eval_arg0 (operands (example_aggregator C_Last TDecimal)))
        [example_posting 10, example_posting 20, example_posting 5]
       = map Inr [VDec (Dec 10 0), VDec (Dec 20 0), VDec (Dec 5 0)]
   \<and> run_group (First_initialize (example_aggregator C_First TDecimal))
        (First_update (example_aggregator C_First TDecimal))
        (First_finalize (example_aggregator C_First TDecimal))
        example_state [example_posting 10, example_posting 20, example_posting 5]
       = Inr (VDec (Dec 10 0))
   \<and> run_group (Last_initialize (example_aggregator C_Last TDecimal))
        (Last_update (example_aggregator C_Last TDecimal))
        (Last_finalize (example_aggregator C_Last TDecimal))
        example_state [example_posting 10, example_posting 20, example_posting 5]
       = Inr (VDec (Dec 5 0))"
proof -
  let ?first = "example_aggregator C_First TDecimal"
  let ?last = "example_aggregator C_Last TDecimal"
  let ?rows = "[example_posting 10, example_posting 20, example_posting 5]"
  let ?vs = "[VDec (Dec 10 0), VDec (Dec 20 0), VDec (Dec 5 0)]"
  have h: "handle ?first = Some 0" and h': "handle ?last = Some 0" by simp_all
  have m: "map (eval_arg0 (operands ?first)) ?rows = map Inr ?vs"
    by (simp add: NumberColumn_def)
  have m': "map (eval_arg0 (operands ?last)) ?rows = map Inr ?vs"
    by (simp add: NumberColumn_def)
  have 1: "?vs \<noteq> [] \<and> hd ?vs \<noteq> VNone" by simp
  have 2: "?vs \<noteq> []" by simp
  from First_Last_finalize [OF h m, of example_state] 1
  have "run_group (First_initialize ?first) (First_update ?first) (First_finalize ?first)
      example_state ?rows = Inr (hd ?vs)" by blast
  then have f: "run_group (First_initialize ?first) (First_update ?first)
      (First_finalize ?first) example_state ?rows = Inr (VDec (Dec 10 0))" by simp
  from First_Last_finalize [OF h' m', of example_state] 2
  have "run_group (Last_initialize ?last) (Last_update ?last) (Last_finalize ?last)
      example_state ?rows = Inr (last ?vs)" by blast
  then have l: "run_group (Last_initialize ?last) (Last_update ?last) (Last_finalize ?last)
      example_state ?rows = Inr (VDec (Dec 5 0))" by simp
  from h h' m m' f l show ?thesis by (intro conjI)
qed

text \<open>
  The claim C6 as stated fails when \<open>v1\<close> is \<^verbatim>\<open>None\<close>: \<^verbatim>\<open>None\<close> is also the mark of a
  slot that is not set yet. For \<^verbatim>\<open>first(price)\<close> over a posting without price followed by
  a posting with a price, the first value is \<^verbatim>\<open>None\<close> and \<^verbatim>\<open>First\<close> finalizes to the
  price of the second posting.
\<close>

theorem First_skips_None_counterexample:
  "map (eval_arg0 (operands \<lparr>cls = C_First, operands = [price_node], out_dtype = TAmount,
                             handle = Some 0\<rparr>))
     [example_posting 10, priced_posting 20]
     = [Inr VNone, Inr (VAmount (Amount (Dec 125 (- 2)) ''CAD''))]
   \<and> run_group
       (First_initialize \<lparr>cls = C_First, operands = [price_node], out_dtype = TAmount,
                          handle = Some 0\<rparr>)
       (First_update \<lparr>cls = C_First, operands = [price_node], out_dtype = TAmount,
                      handle = Some 0\<rparr>)
       (First_finalize \<lparr>cls = C_First, operands = [price_node], out_dtype = TAmount,
                        handle = Some 0\<rparr>)
       example_state [example_posting 10, priced_posting 20]
     = Inr (VAmount (Amount (Dec 125 (- 2)) ''CAD''))
   \<and> Inr (VAmount (Amount (Dec 125 (- 2)) ''CAD'')) \<noteq> (Inr VNone :: error + val)"
  by (simp add: run_group_def First_initialize_def First_update_def First_finalize_def
      PriceColumn_def getitem_def setitem_def get_handle_def)

section \<open>Min and Max\<close>

subsection \<open>The order of decimal numbers\<close>

lemma aligned_shift:
  assumes "e \<le> e'" and "e' \<le> expo x"
  shows "aligned e x = aligned e' x * 10 ^ nat (e' - e)"
proof -
  have "nat (expo x - e) = nat (expo x - e') + nat (e' - e)"
    using assms by simp
  then show ?thesis
    by (simp add: aligned_def power_add)
qed




subsection \<open>The comparison on the values of an ordered type\<close>


lemma py_lt_simps [simp]:
  "py_lt (VInt i) (VInt j) = Inr (i < j)"
  "py_lt (VDec d) (VDec d') = Inr (dec_less d d')"
  "py_lt (VStr s) (VStr s') = Inr (s < s')"
  "py_lt (VBool b) (VBool b') = Inr (\<not> b \<and> b')"
  by (auto simp: py_lt_def)




subsection \<open>The fold of Min and Max\<close>



text \<open>On integers, \<open>least_of\<close> and \<open>greatest_of\<close> are the minimum and the maximum.\<close>

lemma least_of_ints:
  "least_of r (map VInt xs) \<longleftrightarrow> xs \<noteq> [] \<and> r = VInt (Min (set xs))"
proof
  assume l: "least_of r (map VInt xs)"
  then obtain x where x: "x \<in> set xs" "r = VInt x"
    by (auto simp: least_of_def)
  from l x have "\<forall>y \<in> set xs. x \<le> y"
    by (auto simp: least_of_def not_less)
  with x have "Min (set xs) = x"
    by (intro Min_eqI) auto
  with x show "xs \<noteq> [] \<and> r = VInt (Min (set xs))" by auto
next
  assume a: "xs \<noteq> [] \<and> r = VInt (Min (set xs))"
  then have "Min (set xs) \<in> set xs" by (intro Min_in) auto
  moreover have "\<forall>y \<in> set xs. \<not> y < Min (set xs)"
    by (auto simp: not_less)
  ultimately show "least_of r (map VInt xs)"
    using a by (auto simp: least_of_def)
qed

lemma greatest_of_ints:
  "greatest_of r (map VInt xs) \<longleftrightarrow> xs \<noteq> [] \<and> r = VInt (Max (set xs))"
proof
  assume l: "greatest_of r (map VInt xs)"
  then obtain x where x: "x \<in> set xs" "r = VInt x"
    by (auto simp: greatest_of_def)
  from l x have "\<forall>y \<in> set xs. y \<le> x"
    by (auto simp: greatest_of_def py_gt_def not_less)
  with x have "Max (set xs) = x"
    by (intro Max_eqI) auto
  with x show "xs \<noteq> [] \<and> r = VInt (Max (set xs))" by auto
next
  assume a: "xs \<noteq> [] \<and> r = VInt (Max (set xs))"
  then have "Max (set xs) \<in> set xs" by (intro Max_in) auto
  moreover have "\<forall>y \<in> set xs. \<not> Max (set xs) < y"
    by (auto simp: not_less)
  ultimately show "greatest_of r (map VInt xs)"
    using a by (auto simp: greatest_of_def py_gt_def)
qed



section \<open>The frame of the aggregator methods\<close>

lemma new_Inventory_frame:
  assumes "new_Inventory K st = (obj, st1)"
  shows "store st1 = store st" and "heap st1 = heap st @ [Inventory K]"
  using assms by (auto simp: new_Inventory_def)

lemma dtype_call_frame:
  assumes "dtype_call K t st = Inr (z, st1)"
  shows "store st1 = store st \<and> (\<exists>ext. heap st1 = heap st @ ext)"
  using assms by (cases t) (auto simp: dtype_call_def new_Inventory_def)

lemma call_method_frame:
  assumes "call_method m st obj v = Inr st1"
  shows "store st1 = store st \<and> length (heap st1) = length (heap st)
       \<and> (\<forall>a. obj \<noteq> VInv a \<longrightarrow> heap st1 ! a = heap st ! a)"
proof (cases obj)
  case (VInv a0)
  with assms obtain new where "a0 < length (heap st)"
    and "st1 = st\<lparr>heap := (heap st)[a0 := new]\<rparr>"
    by (auto simp: call_method_def bindE_eq_Inr split: if_splits)
  with VInv show ?thesis by auto
qed (use assms in \<open>simp_all add: call_method_def\<close>)

lemma initialize_frame:
  assumes "initialize K agg st = Inr st1"
  shows "(\<forall>k. handle agg \<noteq> Some k \<longrightarrow> store st1 k = store st k)
       \<and> (\<exists>ext. heap st1 = heap st @ ext)"
proof (cases "cls agg")
  case C_Count
  with assms show ?thesis
    by (auto simp: initialize_def Count_initialize_def bindE_eq_Inr get_handle_eq_Inr)
next
  case C_Sum
  with assms show ?thesis
    by (auto simp: initialize_def Sum_initialize_def bindE_eq_Inr get_handle_eq_Inr
        dest: dtype_call_frame)
next
  case C_SumAmount
  with assms show ?thesis
    by (auto simp: initialize_def SumBase_initialize_def bindE_eq_Inr get_handle_eq_Inr
        new_Inventory_def)
next
  case C_SumPosition
  with assms show ?thesis
    by (auto simp: initialize_def SumBase_initialize_def bindE_eq_Inr get_handle_eq_Inr
        new_Inventory_def)
next
  case C_SumInventory
  with assms show ?thesis
    by (auto simp: initialize_def SumBase_initialize_def bindE_eq_Inr get_handle_eq_Inr
        new_Inventory_def)
next
  case C_First
  with assms show ?thesis
    by (auto simp: initialize_def First_initialize_def bindE_eq_Inr get_handle_eq_Inr)
next
  case C_Last
  with assms show ?thesis
    by (auto simp: initialize_def Last_initialize_def bindE_eq_Inr get_handle_eq_Inr)
next
  case C_Min
  with assms show ?thesis
    by (auto simp: initialize_def Min_initialize_def bindE_eq_Inr get_handle_eq_Inr
        dest: dtype_call_frame)
next
  case C_Max
  with assms show ?thesis
    by (auto simp: initialize_def Max_initialize_def bindE_eq_Inr get_handle_eq_Inr
        dest: dtype_call_frame)
qed (use assms in \<open>simp_all add: initialize_def\<close>)

lemma update_frame:
  assumes "update K agg st row = Inr st1"
  shows "(\<forall>k. handle agg \<noteq> Some k \<longrightarrow> store st1 k = store st k)
       \<and> length (heap st1) = length (heap st)
       \<and> (\<forall>h a. handle agg = Some h \<longrightarrow> store st h \<noteq> Some (VInv a) \<longrightarrow>
            heap st1 ! a = heap st ! a)"
proof (cases "cls agg")
  case C_Count
  with assms show ?thesis
    by (auto simp: update_def Count_update_def bindE_eq_Inr get_handle_eq_Inr)
next
  case C_Sum
  with assms show ?thesis
    by (auto simp: update_def Sum_update_def bindE_eq_Inr get_handle_eq_Inr)
next
  case C_SumAmount
  with assms show ?thesis
    by (auto simp: update_def SumAmount_update_def bindE_eq_Inr get_handle_eq_Inr
        getitem_eq_Inr dest!: call_method_frame)
next
  case C_SumPosition
  with assms show ?thesis
    by (auto simp: update_def SumPosition_update_def bindE_eq_Inr get_handle_eq_Inr
        getitem_eq_Inr dest!: call_method_frame)
next
  case C_SumInventory
  with assms show ?thesis
    by (auto simp: update_def SumInventory_update_def bindE_eq_Inr get_handle_eq_Inr
        getitem_eq_Inr dest!: call_method_frame)
next
  case C_First
  with assms show ?thesis
    by (auto simp: update_def First_update_def bindE_eq_Inr get_handle_eq_Inr
        split: if_splits)
next
  case C_Last
  with assms show ?thesis
    by (auto simp: update_def Last_update_def bindE_eq_Inr get_handle_eq_Inr)
next
  case C_Min
  with assms show ?thesis
    by (auto simp: update_def Min_update_def bindE_eq_Inr get_handle_eq_Inr
        split: if_splits)
next
  case C_Max
  with assms show ?thesis
    by (auto simp: update_def Max_update_def bindE_eq_Inr get_handle_eq_Inr
        split: if_splits)
qed (use assms in \<open>simp_all add: update_def\<close>)

lemma finalize_reads_slot:
  assumes "\<forall>h. handle agg = Some h \<longrightarrow> store st2 h = store st h"
  shows "finalize agg st2 = finalize agg st"
proof (cases "handle agg")
  case None
  then show ?thesis
    by (cases "cls agg")
      (simp_all add: finalize_def Count_finalize_def Sum_finalize_def SumBase_finalize_def
        First_finalize_def Last_finalize_def Min_finalize_def Max_finalize_def get_handle_def)
next
  case (Some h)
  with assms have "getitem st2 h = getitem st h" by (simp add: getitem_def)
  with Some show ?thesis
    by (cases "cls agg")
      (simp_all add: finalize_def Count_finalize_def Sum_finalize_def SumBase_finalize_def
        First_finalize_def Last_finalize_def Min_finalize_def Max_finalize_def)
qed

text \<open>
  \<^verbatim>\<open>initialize\<close> of the inventory sums puts a new object into the slot: no other slot
  refers to it.
\<close>

lemma SumBase_initialize_fresh:
  assumes "handle agg = Some h"
  shows "SumBase_initialize K agg st
           = Inr \<lparr>store = (store st)(h \<mapsto> VInv (length (heap st))),
                  heap = heap st @ [Inventory K]\<rparr>"
  using assms by (simp add: SumBase_initialize_def new_Inventory_def setitem_def)

text \<open>
  C9. For every instance \<open>agg\<close> of every class (the nine aggregator classes have the
  methods; an instance of another class raises), every state and every row:
  \<^verbatim>\<open>initialize\<close> leaves every slot other than \<^verbatim>\<open>store[agg.handle]\<close> as it was and
  leaves every object of the heap as it was (it may allocate a new one); \<^verbatim>\<open>update\<close>
  leaves every slot other than \<^verbatim>\<open>store[agg.handle]\<close> as it was, allocates nothing, and
  leaves every object as it was except the inventory that the slot \<^verbatim>\<open>store[agg.handle]\<close>
  refers to; \<^verbatim>\<open>finalize\<close> only reads the slot \<^verbatim>\<open>store[agg.handle]\<close>: it returns a value
  and no state, and its result is the same in every state that agrees on that slot.
\<close>

theorem aggregator_frame:
  "(\<forall>st1. initialize K agg st = Inr st1 \<longrightarrow>
      (\<forall>k. handle agg \<noteq> Some k \<longrightarrow> store st1 k = store st k)
      \<and> (\<exists>ext. heap st1 = heap st @ ext))
   \<and> (\<forall>st1. update K agg st row = Inr st1 \<longrightarrow>
      (\<forall>k. handle agg \<noteq> Some k \<longrightarrow> store st1 k = store st k)
      \<and> length (heap st1) = length (heap st)
      \<and> (\<forall>h a. handle agg = Some h \<longrightarrow> store st h \<noteq> Some (VInv a) \<longrightarrow>
           heap st1 ! a = heap st ! a))
   \<and> (\<forall>st2. (\<forall>h. handle agg = Some h \<longrightarrow> store st2 h = store st h) \<longrightarrow>
      finalize agg st2 = finalize agg st)"
  using initialize_frame [of K agg st] update_frame [of K agg st row]
    finalize_reads_slot [of agg _ st]
  by blast

theorem aggregator_frame_witness:
  "initialize list_Inventory sum_position_example two_sums_state
     = Inr \<lparr>store = [0 \<mapsto> VInv 2, 1 \<mapsto> VInv 1],
            heap = [[], [VPosition (Position (Lot ''CAD'' None) (Dec 7 0))], []]\<rparr>
   \<and> handle sum_position_example \<noteq> Some 1
   \<and> store \<lparr>store = [0 \<mapsto> VInv 2, 1 \<mapsto> VInv 1],
            heap = [[], [VPosition (Position (Lot ''CAD'' None) (Dec 7 0))], []]\<rparr> 1
       = store two_sums_state 1
   \<and> update list_Inventory sum_position_example two_sums_state (example_posting 10)
     = Inr \<lparr>store = [0 \<mapsto> VInv 0, 1 \<mapsto> VInv 1],
            heap = [[VPosition (Position (Lot ''USD'' None) (Dec 10 0))],
                    [VPosition (Position (Lot ''CAD'' None) (Dec 7 0))]]\<rparr>
   \<and> store \<lparr>store = [0 \<mapsto> VInv 0, 1 \<mapsto> VInv 1],
            heap = [[VPosition (Position (Lot ''USD'' None) (Dec 10 0))],
                    [VPosition (Position (Lot ''CAD'' None) (Dec 7 0))]]\<rparr> 1
       = store two_sums_state 1
   \<and> handle sum_position_example = Some 0
   \<and> store two_sums_state 0 \<noteq> Some (VInv 1)
   \<and> heap \<lparr>store = [0 \<mapsto> VInv 0, 1 \<mapsto> VInv 1],
            heap = [[VPosition (Position (Lot ''USD'' None) (Dec 10 0))],
                    [VPosition (Position (Lot ''CAD'' None) (Dec 7 0))]]\<rparr> ! 1
       = heap two_sums_state ! 1
   \<and> store (two_sums_state\<lparr>store := [0 \<mapsto> VInv 0, 1 \<mapsto> VInt 3]\<rparr>) 0
       = store two_sums_state 0
   \<and> finalize sum_position_example (two_sums_state\<lparr>store := [0 \<mapsto> VInv 0, 1 \<mapsto> VInt 3]\<rparr>)
       = finalize sum_position_example two_sums_state"
proof -
  let ?agg = sum_position_example
  let ?st = two_sums_state
  let ?si = "\<lparr>store = [0 \<mapsto> VInv 2, 1 \<mapsto> VInv 1],
            heap = [[], [VPosition (Position (Lot ''CAD'' None) (Dec 7 0))], []]\<rparr>"
  let ?su = "\<lparr>store = [0 \<mapsto> VInv 0, 1 \<mapsto> VInv 1],
            heap = [[VPosition (Position (Lot ''USD'' None) (Dec 10 0))],
                    [VPosition (Position (Lot ''CAD'' None) (Dec 7 0))]]\<rparr>"
  note t = aggregator_frame [of list_Inventory ?agg ?st "example_posting 10"]
  have i: "initialize list_Inventory ?agg ?st = Inr ?si"
    by (simp add: initialize_def SumBase_initialize_def new_Inventory_def setitem_def
        fun_upd_twist numeral_2_eq_2)
  have k: "handle ?agg \<noteq> Some 1" by simp
  from t i k have i1: "store ?si 1 = store ?st 1" by blast
  have u: "update list_Inventory ?agg ?st (example_posting 10) = Inr ?su"
    by (simp add: update_def SumPosition_update_def call_method_def ChangeColumn_def
        getitem_def)
  from t u k have u1: "store ?su 1 = store ?st 1" by blast
  have h: "handle ?agg = Some 0" and a: "store ?st 0 \<noteq> Some (VInv 1)" by simp_all
  from t u h a have u2: "heap ?su ! 1 = heap ?st ! 1" by blast
  have "\<forall>h. handle ?agg = Some h \<longrightarrow>
          store (?st\<lparr>store := [0 \<mapsto> VInv 0, 1 \<mapsto> VInt 3]\<rparr>) h = store ?st h"
    by simp
  with t have f: "finalize ?agg (?st\<lparr>store := [0 \<mapsto> VInv 0, 1 \<mapsto> VInt 3]\<rparr>)
       = finalize ?agg ?st" by blast
  have s0: "store (?st\<lparr>store := [0 \<mapsto> VInv 0, 1 \<mapsto> VInt 3]\<rparr>) 0 = store ?st 0"
    by simp
  from i k i1 u u1 h a u2 s0 f show ?thesis by (intro conjI)
qed

section \<open>has_account\<close>

lemma MatchAccount_registered:
  "FilterEntriesEnvironment_functions (Name ''has_account'') = Some C_MatchAccount"
  "C_MatchAccount \<notin> ran FilterPostingsEnvironment_functions"
  "C_MatchAccount \<notin> ran TargetsEnvironment_functions"
  by (auto simp: FilterEntriesEnvironment_functions_def FilterPostingsEnvironment_functions_def
      TargetsEnvironment_functions_def SIMPLE_FUNCTIONS_def ENTRY_FUNCTIONS_def
      AGGREGATOR_FUNCTIONS_def ran_def map_add_def split: if_splits option.splits)

text \<open>
  C10. The function \<^verbatim>\<open>has_account\<close> is the class \<^verbatim>\<open>MatchAccount\<close>. On an entry that is
  not a transaction it returns \<^verbatim>\<open>False\<close> whatever its operands are, also when their
  evaluation would raise: the operand is not evaluated. On a transaction, when the operand
  evaluates to a string that compiles to a regular expression with the flag
  \<^verbatim>\<open>re.IGNORECASE\<close>, it returns \<^verbatim>\<open>True\<close> exactly when the search of that expression
  succeeds on the account of at least one posting of the transaction. The class is
  registered under \<^verbatim>\<open>'has_account'\<close> in the functions of the entries environment, and
  under no key in the functions of the postings and targets environments.
\<close>

theorem MatchAccount_has_account:
  "(\<forall>n s d. MatchAccount_call re_compile ops (Directive n s d) = Inr (VBool False))
   \<and> (\<forall>t pat search.
        eval_arg0 ops (TransactionEntry t) = Inr (VStr pat) \<and> re_compile pat True = Some search
        \<longrightarrow> MatchAccount_call re_compile ops (TransactionEntry t)
              = Inr (VBool (\<exists>p \<in> set (txn_postings t). search (post_account p))))
   \<and> FilterEntriesEnvironment_functions (Name ''has_account'') = Some C_MatchAccount
   \<and> C_MatchAccount \<notin> ran FilterPostingsEnvironment_functions
   \<and> C_MatchAccount \<notin> ran TargetsEnvironment_functions"
  using MatchAccount_registered
  by (simp add: MatchAccount_call_def list_ex_iff)

lemma lower_examples:
  "lower ''Expenses:Food'' = ''expenses:food''"
  "lower ''Assets:Cash'' = ''assets:cash''"
  "lower ''food'' = ''food''"
  "lower ''rent'' = ''rent''"
  by code_simp+

theorem MatchAccount_has_account_witness:
  "MatchAccount_call literal_search [raising_node] open_directive = Inr (VBool False)
   \<and> eval_arg0 [constant_node ''food''] (TransactionEntry lunch_transaction) = Inr (VStr ''food'')
   \<and> literal_search ''food'' True \<noteq> None
   \<and> MatchAccount_call literal_search [constant_node ''food''] (TransactionEntry lunch_transaction)
       = Inr (VBool True)
   \<and> MatchAccount_call literal_search [constant_node ''rent''] (TransactionEntry lunch_transaction)
       = Inr (VBool False)"
proof -
  note t = MatchAccount_has_account [of literal_search "[raising_node]"]
  from t have a: "MatchAccount_call literal_search [raising_node] open_directive = Inr (VBool False)"
    by blast
  have e: "eval_arg0 [constant_node ''food''] (TransactionEntry lunch_transaction) = Inr (VStr ''food'')"
    by (simp add: eval_arg0_def)
  have e': "eval_arg0 [constant_node ''rent''] (TransactionEntry lunch_transaction) = Inr (VStr ''rent'')"
    by (simp add: eval_arg0_def)
  obtain search where s: "literal_search ''food'' True = Some search"
    and sv: "search = (\<lambda>s. list_ex (\<lambda>i. take (length ''food'') (drop i (lower s)) = lower ''food'')
       [0..<Suc (length s)])" by simp
  obtain search' where s': "literal_search ''rent'' True = Some search'"
    and sv': "search' = (\<lambda>s. list_ex (\<lambda>i. take (length ''rent'') (drop i (lower s)) = lower ''rent'')
       [0..<Suc (length s)])" by simp
  from MatchAccount_has_account [of literal_search "[constant_node ''food'']"] e s
  have "MatchAccount_call literal_search [constant_node ''food''] (TransactionEntry lunch_transaction)
       = Inr (VBool (\<exists>p \<in> set (txn_postings lunch_transaction). search (post_account p)))"
    by blast
  moreover have "\<exists>p \<in> set (txn_postings lunch_transaction). search (post_account p)"
    unfolding sv by (simp add: lower_examples upt_rec)
  ultimately have b: "MatchAccount_call literal_search [constant_node ''food'']
       (TransactionEntry lunch_transaction) = Inr (VBool True)" by simp
  from MatchAccount_has_account [of literal_search "[constant_node ''rent'']"] e' s'
  have "MatchAccount_call literal_search [constant_node ''rent''] (TransactionEntry lunch_transaction)
       = Inr (VBool (\<exists>p \<in> set (txn_postings lunch_transaction). search' (post_account p)))"
    by blast
  moreover have "\<not> (\<exists>p \<in> set (txn_postings lunch_transaction). search' (post_account p))"
    unfolding sv' by (simp add: lower_examples upt_rec)
  ultimately have c: "MatchAccount_call literal_search [constant_node ''rent'']
       (TransactionEntry lunch_transaction) = Inr (VBool False)" by simp
  have n: "literal_search ''food'' True \<noteq> None" by simp
  from a e n b c show ?thesis by (intro conjI)
qed

section \<open>The overloads of sum\<close>




section \<open>Posting accessors and the accessors of the parent entry\<close>

lemma posting_columns_agree:
  "IdColumn hash_entry p = IdEntryColumn hash_entry (TransactionEntry (post_entry p))"
  "TypeColumn p = TypeEntryColumn (TransactionEntry (post_entry p))"
  "FilenameColumn p = FilenameEntryColumn (TransactionEntry (post_entry p))"
  "LineNoColumn p = LineNoEntryColumn (TransactionEntry (post_entry p))"
  "DateColumn p = DateEntryColumn (TransactionEntry (post_entry p))"
  "YearColumn p = YearEntryColumn (TransactionEntry (post_entry p))"
  "MonthColumn p = MonthEntryColumn (TransactionEntry (post_entry p))"
  "DayColumn p = DayEntryColumn (TransactionEntry (post_entry p))"
  "FlagColumn p = FlagEntryColumn (TransactionEntry (post_entry p))"
  "PayeeColumn p = PayeeEntryColumn (TransactionEntry (post_entry p))"
  "TagsColumn p = TagsEntryColumn (TransactionEntry (post_entry p))"
  "LinksColumn p = LinksEntryColumn (TransactionEntry (post_entry p))"
  by (simp_all add: IdColumn_def IdEntryColumn_def TypeColumn_def TypeEntryColumn_def
      FilenameColumn_def FilenameEntryColumn_def LineNoColumn_def LineNoEntryColumn_def
      DateColumn_def DateEntryColumn_def YearColumn_def YearEntryColumn_def
      MonthColumn_def MonthEntryColumn_def DayColumn_def DayEntryColumn_def
      FlagColumn_def FlagEntryColumn_def PayeeColumn_def PayeeEntryColumn_def
      TagsColumn_def TagsEntryColumn_def LinksColumn_def LinksEntryColumn_def)

lemma narration_columns_agree_iff:
  "NarrationColumn p = NarrationEntryColumn (TransactionEntry (post_entry p))
     \<longleftrightarrow> txn_narration (post_entry p) \<noteq> None"
  by (cases "txn_narration (post_entry p)")
    (simp_all add: NarrationColumn_def NarrationEntryColumn_def)

text \<open>
  C2. The posting accessors of the fields of the parent entry agree with the entry
  accessors on the parent for id, type, filename, lineno, date, flag, payee, tags and
  links (\<open>posting_columns_agree\<close>). The narration accessors agree exactly when the
  narration of the parent is not \<^verbatim>\<open>None\<close> (\<open>narration_columns_agree_iff\<close>):
  \<^verbatim>\<open>NarrationColumn\<close> returns \<^verbatim>\<open>posting.entry.narration\<close> without the
  \<^verbatim>\<open>or ''\<close> of \<^verbatim>\<open>NarrationEntryColumn\<close> and of \<^verbatim>\<open>PayeeColumn\<close>. On a posting
  whose parent has no narration the posting accessor returns \<^verbatim>\<open>None\<close> and the entry
  accessor the empty string.
\<close>

theorem NarrationColumn_differs_from_entry:
  "txn_narration (post_entry no_narration_posting) = None
   \<and> NarrationColumn no_narration_posting = VNone
   \<and> NarrationEntryColumn (TransactionEntry (post_entry no_narration_posting)) = VStr ''''
   \<and> NarrationColumn no_narration_posting
       \<noteq> NarrationEntryColumn (TransactionEntry (post_entry no_narration_posting))"
  by (simp add: NarrationColumn_def NarrationEntryColumn_def)

section \<open>Absent optional fields\<close>

text \<open>
  C3 (amended). For every transaction whose payee, narration, tags or links is
  \<^verbatim>\<open>None\<close>, the entry accessor of that field returns the empty value of its type (the
  empty string, the empty set); for every posting whose parent has no payee, tags or links,
  the posting accessor of that field returns the empty value; for a directive that is not
  a transaction, which has none of these fields, the accessors of tags and links return the
  empty set and the accessors of payee and narration return \<^verbatim>\<open>None\<close>.
\<close>

theorem absent_fields_empty:
  "(txn_payee t = None \<longrightarrow> PayeeEntryColumn (TransactionEntry t) = VStr '''')
   \<and> (txn_narration t = None \<longrightarrow> NarrationEntryColumn (TransactionEntry t) = VStr '''')
   \<and> (txn_tags t = None \<longrightarrow> TagsEntryColumn (TransactionEntry t) = VSet {})
   \<and> (txn_links t = None \<longrightarrow> LinksEntryColumn (TransactionEntry t) = VSet {})
   \<and> (txn_payee (post_entry p) = None \<longrightarrow> PayeeColumn p = VStr '''')
   \<and> (txn_tags (post_entry p) = None \<longrightarrow> TagsColumn p = VSet {})
   \<and> (txn_links (post_entry p) = None \<longrightarrow> LinksColumn p = VSet {})
   \<and> TagsEntryColumn (Directive n s d) = VSet {}
   \<and> LinksEntryColumn (Directive n s d) = VSet {}
   \<and> PayeeEntryColumn (Directive n s d) = VNone
   \<and> NarrationEntryColumn (Directive n s d) = VNone"
  by (simp add: PayeeEntryColumn_def NarrationEntryColumn_def TagsEntryColumn_def
      LinksEntryColumn_def PayeeColumn_def TagsColumn_def LinksColumn_def EMPTY_SET_def)

theorem absent_fields_empty_witness:
  "txn_payee (example_transaction 10) = None
   \<and> PayeeEntryColumn (TransactionEntry (example_transaction 10)) = VStr ''''
   \<and> txn_tags (example_transaction 10) = None
   \<and> TagsEntryColumn (TransactionEntry (example_transaction 10)) = VSet {}
   \<and> txn_links (example_transaction 10) = None
   \<and> LinksEntryColumn (TransactionEntry (example_transaction 10)) = VSet {}
   \<and> txn_narration (post_entry no_narration_posting) = None
   \<and> NarrationEntryColumn (TransactionEntry (post_entry no_narration_posting)) = VStr ''''
   \<and> txn_payee (post_entry (example_posting 10)) = None
   \<and> PayeeColumn (example_posting 10) = VStr ''''
   \<and> txn_tags (post_entry (example_posting 10)) = None
   \<and> TagsColumn (example_posting 10) = VSet {}
   \<and> txn_links (post_entry (example_posting 10)) = None
   \<and> LinksColumn (example_posting 10) = VSet {}"
  using absent_fields_empty [of "example_transaction 10" "example_posting 10"]
    absent_fields_empty [of "post_entry no_narration_posting" "example_posting 10"]
  by simp

text \<open>
  The claim C3 as stated fails: for a directive that is not a transaction the entry
  accessors of payee and narration return \<^verbatim>\<open>None\<close>, as the accessors spell out; and
  for a posting whose parent has no narration the posting accessor of narration returns
  \<^verbatim>\<open>None\<close>.
\<close>

theorem absent_fields_counterexample:
  "PayeeEntryColumn open_directive = VNone
   \<and> NarrationEntryColumn open_directive = VNone
   \<and> txn_narration (post_entry no_narration_posting) = None
   \<and> NarrationColumn no_narration_posting = VNone"
  by (simp add: PayeeEntryColumn_def NarrationEntryColumn_def NarrationColumn_def)

section \<open>Sum\<close>

subsection \<open>Sums of integers\<close>

lemma Sum_update_rows_int:
  assumes "handle agg = Some h"
    and "store st h = Some (VInt a)"
    and "\<forall>r \<in> set rows. eval_arg0 (operands agg) r = Inr (VInt (f r))"
  shows "\<exists>st1. update_rows (Sum_update agg) st rows = Inr st1
           \<and> store st1 h = Some (VInt (a + (\<Sum>r\<leftarrow>rows. f r)))"
  using assms(2,3)
proof (induction rows arbitrary: st a)
  case Nil
  then show ?case by simp
next
  case (Cons r rs)
  have step: "Sum_update agg st r = Inr (setitem st h (VInt (a + f r)))"
    using assms(1) Cons.prems by (simp add: Sum_update_def)
  have "store (setitem st h (VInt (a + f r))) h = Some (VInt (a + f r))" by simp
  moreover have "\<forall>r \<in> set rs. eval_arg0 (operands agg) r = Inr (VInt (f r))"
    using Cons.prems(2) by simp
  ultimately obtain st1 where
    "update_rows (Sum_update agg) (setitem st h (VInt (a + f r))) rs = Inr st1"
    "store st1 h = Some (VInt (a + f r + (\<Sum>r\<leftarrow>rs. f r)))"
    using Cons.IH by blast
  then show ?case using step by (simp add: add.assoc)
qed

subsection \<open>Sums of decimal numbers that need no rounding\<close>

lemma ndigits_le:
  assumes "n < 10 ^ k" and "0 < k"
  shows "ndigits n \<le> k"
  using assms
proof (induction n arbitrary: k rule: ndigits.induct)
  case (1 n)
  show ?case
  proof (cases "n < 10")
    case True
    with "1.prems" show ?thesis by (simp add: ndigits.simps)
  next
    case False
    obtain j where k: "k = Suc j" using "1.prems"(2) by (cases k) auto
    have "0 < j"
    proof (rule ccontr)
      assume "\<not> 0 < j"
      with k "1.prems"(1) False show False by simp
    qed
    moreover have "n div 10 < 10 ^ j"
      using "1.prems"(1) k by (simp add: less_mult_imp_div_less mult.commute)
    ultimately have "ndigits (n div 10) \<le> j"
      using "1.IH" [OF False] by blast
    with False k show ?thesis by (simp add: ndigits.simps [of n])
  qed
qed

lemma dec_fix_small:
  assumes "\<bar>c\<bar> < 10 ^ prec"
  shows "dec_fix (Dec c e) = Dec c e"
proof -
  have "nat \<bar>c\<bar> < 10 ^ prec"
    using assms by (simp add: nat_less_iff)
  then have "ndigits (nat \<bar>c\<bar>) \<le> prec"
    by (rule ndigits_le) (simp add: prec_def)
  then show ?thesis by (simp add: dec_fix_def Let_def)
qed

lemma aligned_Dec [simp]: "aligned e' (Dec c e) = c * 10 ^ nat (e - e')"
  by (simp add: aligned_def)

lemma Min_insert_min:
  fixes a b :: int
  assumes "finite S"
  shows "Min (insert (min a b) S) = Min (insert a (insert b S))"
proof (cases "S = {}")
  case True
  then show ?thesis by simp
next
  case False
  with assms show ?thesis by (simp add: min.assoc)
qed

lemma foldl_dec_add_exact:
  assumes "\<bar>c\<bar> * 10 ^ nat (e - Min (set (e # map expo ds)))
           + (\<Sum>d\<leftarrow>ds. \<bar>aligned (Min (set (e # map expo ds))) d\<bar>) < 10 ^ prec"
  shows "foldl dec_add (Dec c e) ds =
           Dec (c * 10 ^ nat (e - Min (set (e # map expo ds)))
                + (\<Sum>d\<leftarrow>ds. aligned (Min (set (e # map expo ds))) d))
               (Min (set (e # map expo ds)))"
  using assms
proof (induction ds arbitrary: c e)
  case Nil
  then show ?case by simp
next
  case (Cons d ds)
  define m where "m = Min (set (e # map expo (d # ds)))"
  define e' where "e' = min e (expo d)"
  define c' where "c' = c * 10 ^ nat (e - e') + aligned e' d"
  define k where "k = nat (e' - m)"
  define A where "A = \<bar>c\<bar> * 10 ^ nat (e - m)"
  define S where "S = (\<Sum>d\<leftarrow>ds. \<bar>aligned m d\<bar>)"
  have m_eq: "Min (set (e' # map expo ds)) = m"
    unfolding m_def e'_def by (simp add: Min_insert_min)
  have "m \<le> e" and "m \<le> expo d"
    unfolding m_def by (rule Min_le; simp)+
  then have m_le: "m \<le> e'" "e' \<le> e" "e' \<le> expo d"
    unfolding e'_def by simp_all
  have shift_c: "c * 10 ^ nat (e - e') * 10 ^ k = c * 10 ^ nat (e - m)"
  proof -
    have "nat (e - m) = nat (e - e') + k" unfolding k_def using m_le by linarith
    then show ?thesis by (simp add: power_add)
  qed
  have shift_d: "aligned e' d * 10 ^ k = aligned m d"
    unfolding k_def using aligned_shift [OF m_le(1) m_le(3)] by simp
  have scaled: "c' * 10 ^ k = c * 10 ^ nat (e - m) + aligned m d"
    unfolding c'_def using shift_c shift_d by (simp add: distrib_right)
  have "\<bar>c'\<bar> * 10 ^ k = \<bar>c' * 10 ^ k\<bar>"
    by (simp add: abs_mult)
  also have "\<dots> \<le> \<bar>c * 10 ^ nat (e - m)\<bar> + \<bar>aligned m d\<bar>"
    unfolding scaled by (rule abs_triangle_ineq)
  also have "\<bar>c * 10 ^ nat (e - m)\<bar> = A"
    unfolding A_def by (simp add: abs_mult)
  finally have c'_scaled: "\<bar>c'\<bar> * 10 ^ k \<le> A + \<bar>aligned m d\<bar>" .
  have nonneg: "0 \<le> S"
    unfolding S_def by (rule sum_list_nonneg) auto
  have prem: "A + (\<bar>aligned m d\<bar> + S) < 10 ^ prec"
    using Cons.prems unfolding A_def S_def m_def by (simp add: add.assoc)
  have "(1::int) \<le> 10 ^ k" by simp
  then have "\<bar>c'\<bar> * 1 \<le> \<bar>c'\<bar> * 10 ^ k"
    by (intro mult_left_mono) simp_all
  then have "\<bar>c'\<bar> \<le> A + \<bar>aligned m d\<bar>"
    using c'_scaled by linarith
  then have small: "\<bar>c'\<bar> < 10 ^ prec"
    using prem nonneg by linarith
  have step: "dec_add (Dec c e) d = Dec c' e'"
    using small unfolding c'_def e'_def by (simp add: dec_add_def Let_def dec_fix_small)
  have "\<bar>c'\<bar> * 10 ^ k + S < 10 ^ prec"
    using c'_scaled prem by linarith
  then have bound': "\<bar>c'\<bar> * 10 ^ nat (e' - Min (set (e' # map expo ds)))
           + (\<Sum>d\<leftarrow>ds. \<bar>aligned (Min (set (e' # map expo ds))) d\<bar>) < 10 ^ prec"
    unfolding m_eq k_def S_def .
  have "foldl dec_add (Dec c e) (d # ds) = foldl dec_add (Dec c' e') ds"
    using step by simp
  also have "\<dots> = Dec (c' * 10 ^ k + (\<Sum>d\<leftarrow>ds. aligned m d)) m"
    using Cons.IH [OF bound'] unfolding m_eq k_def .
  also have "\<dots> = Dec (c * 10 ^ nat (e - m) + (\<Sum>d\<leftarrow>d # ds. aligned m d)) m"
    unfolding scaled by (simp add: add.assoc)
  finally show ?case unfolding m_def .
qed

lemma py_add_dec [simp]: "py_add (VDec x) (VDec y) = Inr (VDec (dec_add x y))"
  by (simp add: py_add_def)

lemma Sum_update_rows_dec:
  assumes "handle agg = Some h"
    and "store st h = Some (VDec x)"
    and "\<forall>r \<in> set rows. eval_arg0 (operands agg) r = Inr (VDec (g r))"
  shows "\<exists>st1. update_rows (Sum_update agg) st rows = Inr st1
           \<and> store st1 h = Some (VDec (foldl dec_add x (map g rows)))"
  using assms(2,3)
proof (induction rows arbitrary: st x)
  case Nil
  then show ?case by simp
next
  case (Cons r rs)
  have step: "Sum_update agg st r = Inr (setitem st h (VDec (dec_add x (g r))))"
    using assms(1) Cons.prems by (simp add: Sum_update_def)
  have "store (setitem st h (VDec (dec_add x (g r)))) h = Some (VDec (dec_add x (g r)))"
    by simp
  moreover have "\<forall>r \<in> set rs. eval_arg0 (operands agg) r = Inr (VDec (g r))"
    using Cons.prems(2) by simp
  ultimately obtain st1 where
    "update_rows (Sum_update agg) (setitem st h (VDec (dec_add x (g r)))) rs = Inr st1"
    "store st1 h = Some (VDec (foldl dec_add (dec_add x (g r)) (map g rs)))"
    using Cons.IH by blast
  then show ?case using step by simp
qed

lemma foldl_dec_add_exact_sum:
  assumes "fits_precision ds"
  shows "foldl dec_add (Dec 0 0) ds = exact_sum ds"
proof -
  have "\<bar>0::int\<bar> * 10 ^ nat (0 - Min (set (0 # map expo ds)))
           + (\<Sum>d\<leftarrow>ds. \<bar>aligned (Min (set (0 # map expo ds))) d\<bar>) < 10 ^ prec"
    using assms by (simp add: fits_precision_def least_expo_def)
  from foldl_dec_add_exact [OF this] show ?thesis
    by (simp add: exact_sum_def least_expo_def)
qed

lemma sum_list_map_mset:
  fixes f :: "'a \<Rightarrow> int"
  assumes "mset xs = mset ys"
  shows "(\<Sum>x\<leftarrow>xs. f x) = (\<Sum>x\<leftarrow>ys. f x)"
proof -
  have "(\<Sum>x\<leftarrow>xs. f x) = sum_mset (image_mset f (mset xs))"
    by (simp flip: sum_mset_sum_list)
  also have "\<dots> = sum_mset (image_mset f (mset ys))"
    using assms by simp
  also have "\<dots> = (\<Sum>x\<leftarrow>ys. f x)"
    by (simp flip: sum_mset_sum_list)
  finally show ?thesis .
qed

lemma exact_sum_mset:
  assumes "mset ds' = mset ds"
  shows "exact_sum ds' = exact_sum ds" and "fits_precision ds' = fits_precision ds"
proof -
  have "set ds' = set ds" using assms by (rule mset_eq_setD)
  then have e: "least_expo ds' = least_expo ds"
    by (simp add: least_expo_def)
  show "exact_sum ds' = exact_sum ds"
    unfolding exact_sum_def e using sum_list_map_mset [OF assms] by simp
  show "fits_precision ds' = fits_precision ds"
    unfolding fits_precision_def e using sum_list_map_mset [OF assms] by simp
qed

lemma Sum_run_int:
  assumes "handle agg = Some h" and "out_dtype agg = TInt"
    and "\<forall>r \<in> set rows. eval_arg0 (operands agg) r = Inr (VInt (f r))"
  shows "run_group (Sum_initialize K agg) (Sum_update agg) (Sum_finalize agg) st rows
           = Inr (VInt (\<Sum>r\<leftarrow>rows. f r))"
proof -
  have i: "Sum_initialize K agg st = Inr (setitem st h (VInt 0))"
    using assms(1,2) by (simp add: Sum_initialize_def dtype_call_def)
  have "store (setitem st h (VInt 0)) h = Some (VInt 0)" by simp
  from Sum_update_rows_int [OF assms(1) this assms(3)] obtain st1 where
    "update_rows (Sum_update agg) (setitem st h (VInt 0)) rows = Inr st1"
    "store st1 h = Some (VInt (\<Sum>r\<leftarrow>rows. f r))" by auto
  then show ?thesis
    using i assms(1) by (simp add: run_group_def Sum_finalize_def)
qed

lemma Sum_run_dec:
  assumes "handle agg = Some h" and "out_dtype agg = TDecimal"
    and "\<forall>r \<in> set rows. eval_arg0 (operands agg) r = Inr (VDec (g r))"
    and "fits_precision (map g rows)"
  shows "run_group (Sum_initialize K agg) (Sum_update agg) (Sum_finalize agg) st rows
           = Inr (VDec (exact_sum (map g rows)))"
proof -
  have i: "Sum_initialize K agg st = Inr (setitem st h (VDec (Dec 0 0)))"
    using assms(1,2) by (simp add: Sum_initialize_def dtype_call_def)
  have "store (setitem st h (VDec (Dec 0 0))) h = Some (VDec (Dec 0 0))" by simp
  from Sum_update_rows_dec [OF assms(1) this assms(3)] obtain st1 where
    "update_rows (Sum_update agg) (setitem st h (VDec (Dec 0 0))) rows = Inr st1"
    "store st1 h = Some (VDec (foldl dec_add (Dec 0 0) (map g rows)))" by auto
  then show ?thesis
    using i assms(1) foldl_dec_add_exact_sum [OF assms(4)]
    by (simp add: run_group_def Sum_finalize_def)
qed

text \<open>
  C8 (amended). For a \<^verbatim>\<open>Sum\<close> aggregator with an allocated handle, a group of rows
  and any permutation of the rows: when the operand type is \<^verbatim>\<open>int\<close> and the operand
  evaluates to integers, the lifecycle finalizes to the sum of the integers, in either
  order; when the operand type is \<^verbatim>\<open>Decimal\<close>, the operand evaluates to decimal numbers
  and the magnitudes of the numbers add up to at most 28 digits at the least exponent (so
  that no addition rounds), the lifecycle finalizes to the exact sum of the numbers, in
  either order.
\<close>

theorem Sum_order_independent:
  assumes "handle agg = Some h" and "mset rows' = mset rows"
  shows "(out_dtype agg = TInt
          \<and> (\<forall>r \<in> set rows. eval_arg0 (operands agg) r = Inr (VInt (f r)))
          \<longrightarrow> run_group (Sum_initialize K agg) (Sum_update agg) (Sum_finalize agg) st rows
                = Inr (VInt (\<Sum>r\<leftarrow>rows. f r))
            \<and> run_group (Sum_initialize K agg) (Sum_update agg) (Sum_finalize agg) st rows'
                = run_group (Sum_initialize K agg) (Sum_update agg) (Sum_finalize agg) st rows)
       \<and> (out_dtype agg = TDecimal
          \<and> (\<forall>r \<in> set rows. eval_arg0 (operands agg) r = Inr (VDec (g r)))
          \<and> fits_precision (map g rows)
          \<longrightarrow> run_group (Sum_initialize K agg) (Sum_update agg) (Sum_finalize agg) st rows
                = Inr (VDec (exact_sum (map g rows)))
            \<and> run_group (Sum_initialize K agg) (Sum_update agg) (Sum_finalize agg) st rows'
                = run_group (Sum_initialize K agg) (Sum_update agg) (Sum_finalize agg) st rows)"
proof (intro conjI impI)
  have s: "set rows' = set rows" using assms(2) by (rule mset_eq_setD)
  {
    assume a: "out_dtype agg = TInt
          \<and> (\<forall>r \<in> set rows. eval_arg0 (operands agg) r = Inr (VInt (f r)))"
    then have a': "\<forall>r \<in> set rows'. eval_arg0 (operands agg) r = Inr (VInt (f r))"
      using s by simp
    from a show r: "run_group (Sum_initialize K agg) (Sum_update agg) (Sum_finalize agg) st rows
                = Inr (VInt (\<Sum>r\<leftarrow>rows. f r))"
      using Sum_run_int [OF assms(1)] by blast
    from a a' have "run_group (Sum_initialize K agg) (Sum_update agg) (Sum_finalize agg) st rows'
                = Inr (VInt (\<Sum>r\<leftarrow>rows'. f r))"
      using Sum_run_int [OF assms(1)] by blast
    then show "run_group (Sum_initialize K agg) (Sum_update agg) (Sum_finalize agg) st rows'
                = run_group (Sum_initialize K agg) (Sum_update agg) (Sum_finalize agg) st rows"
      using r sum_list_map_mset [OF assms(2), of f] by simp
  }
  {
    assume a: "out_dtype agg = TDecimal
          \<and> (\<forall>r \<in> set rows. eval_arg0 (operands agg) r = Inr (VDec (g r)))
          \<and> fits_precision (map g rows)"
    have m: "mset (map g rows') = mset (map g rows)" using assms(2) by simp
    from a have a': "\<forall>r \<in> set rows'. eval_arg0 (operands agg) r = Inr (VDec (g r))"
      and f': "fits_precision (map g rows')"
      using s exact_sum_mset(2) [OF m] by simp_all
    from a show r: "run_group (Sum_initialize K agg) (Sum_update agg) (Sum_finalize agg) st rows
                = Inr (VDec (exact_sum (map g rows)))"
      using Sum_run_dec [OF assms(1)] by blast
    from a a' f' have "run_group (Sum_initialize K agg) (Sum_update agg) (Sum_finalize agg) st rows'
                = Inr (VDec (exact_sum (map g rows')))"
      using Sum_run_dec [OF assms(1)] by blast
    then show "run_group (Sum_initialize K agg) (Sum_update agg) (Sum_finalize agg) st rows'
                = run_group (Sum_initialize K agg) (Sum_update agg) (Sum_finalize agg) st rows"
      using r exact_sum_mset(1) [OF m] by simp
  }
qed

theorem Sum_order_independent_witness:
  "handle (example_aggregator C_Sum TDecimal) = Some 0
   \<and> mset [example_posting 5, example_posting 10, example_posting 20]
       = mset [example_posting 10, example_posting 20, example_posting 5]
   \<and> out_dtype (example_aggregator C_Sum TDecimal) = TDecimal
   \<and> map (eval_arg0 (operands (example_aggregator C_Sum TDecimal)))
        [example_posting 10, example_posting 20, example_posting 5]
       = [Inr (VDec (Dec 10 0)), Inr (VDec (Dec 20 0)), Inr (VDec (Dec 5 0))]
   \<and> fits_precision [Dec 10 0, Dec 20 0, Dec 5 0]
   \<and> run_group (Sum_initialize example_Inventory (example_aggregator C_Sum TDecimal))
        (Sum_update (example_aggregator C_Sum TDecimal))
        (Sum_finalize (example_aggregator C_Sum TDecimal))
        example_state [example_posting 10, example_posting 20, example_posting 5]
       = Inr (VDec (Dec 35 0))
   \<and> run_group (Sum_initialize example_Inventory (example_aggregator C_Sum TDecimal))
        (Sum_update (example_aggregator C_Sum TDecimal))
        (Sum_finalize (example_aggregator C_Sum TDecimal))
        example_state [example_posting 5, example_posting 10, example_posting 20]
       = Inr (VDec (Dec 35 0))
   \<and> out_dtype \<lparr>cls = C_Sum, operands = [lineno_node], out_dtype = TInt, handle = Some 0\<rparr>
       = TInt
   \<and> map (eval_arg0 [lineno_node])
        [example_posting 10, example_posting 20, example_posting 5]
       = [Inr (VInt 10), Inr (VInt 20), Inr (VInt 5)]
   \<and> run_group
        (Sum_initialize example_Inventory
           \<lparr>cls = C_Sum, operands = [lineno_node], out_dtype = TInt, handle = Some 0\<rparr>)
        (Sum_update \<lparr>cls = C_Sum, operands = [lineno_node], out_dtype = TInt, handle = Some 0\<rparr>)
        (Sum_finalize \<lparr>cls = C_Sum, operands = [lineno_node], out_dtype = TInt, handle = Some 0\<rparr>)
        example_state [example_posting 10, example_posting 20, example_posting 5]
       = Inr (VInt 35)
   \<and> run_group
        (Sum_initialize example_Inventory
           \<lparr>cls = C_Sum, operands = [lineno_node], out_dtype = TInt, handle = Some 0\<rparr>)
        (Sum_update \<lparr>cls = C_Sum, operands = [lineno_node], out_dtype = TInt, handle = Some 0\<rparr>)
        (Sum_finalize \<lparr>cls = C_Sum, operands = [lineno_node], out_dtype = TInt, handle = Some 0\<rparr>)
        example_state [example_posting 5, example_posting 10, example_posting 20]
       = Inr (VInt 35)"
proof -
  let ?dec = "example_aggregator C_Sum TDecimal"
  let ?int = "\<lparr>cls = C_Sum, operands = [lineno_node], out_dtype = TInt, handle = Some 0\<rparr>
                :: posting evalfunction"
  let ?rows = "[example_posting 10, example_posting 20, example_posting 5]"
  let ?rows' = "[example_posting 5, example_posting 10, example_posting 20]"
  let ?g = "\<lambda>p. position_number (post_position p)"
  let ?f = "\<lambda>p. lineno (txn_source (post_entry p))"
  have h: "handle ?dec = Some 0" and h': "handle ?int = Some 0" by simp_all
  have p: "mset ?rows' = mset ?rows" by (simp add: add.commute)
  have d: "out_dtype ?dec = TDecimal" and d': "out_dtype ?int = TInt" by simp_all
  have m: "map (eval_arg0 (operands ?dec)) ?rows
       = [Inr (VDec (Dec 10 0)), Inr (VDec (Dec 20 0)), Inr (VDec (Dec 5 0))]"
    by (simp add: NumberColumn_def)
  have m': "map (eval_arg0 [lineno_node]) ?rows = [Inr (VInt 10), Inr (VInt 20), Inr (VInt 5)]"
    by (simp add: LineNoColumn_def)
  have e: "\<forall>r \<in> set ?rows. eval_arg0 (operands ?dec) r = Inr (VDec (?g r))"
    by (simp add: NumberColumn_def)
  have e': "\<forall>r \<in> set ?rows. eval_arg0 (operands ?int) r = Inr (VInt (?f r))"
    by (simp add: LineNoColumn_def)
  have le: "least_expo [Dec 10 0, Dec 20 0, Dec 5 0] = 0"
    by (simp add: least_expo_def)
  have fp: "fits_precision [Dec 10 0, Dec 20 0, Dec 5 0]"
    by (simp add: fits_precision_def le aligned_def prec_def)
  have fp': "fits_precision (map ?g ?rows)" using fp by simp
  have es: "exact_sum (map ?g ?rows) = Dec 35 0"
    by (simp add: exact_sum_def le aligned_def)
  note t = Sum_order_independent
    [OF h p, of ?f example_Inventory example_state ?g]
  from t d e fp' have
    "run_group (Sum_initialize example_Inventory ?dec) (Sum_update ?dec) (Sum_finalize ?dec)
       example_state ?rows = Inr (VDec (exact_sum (map ?g ?rows)))"
    and "run_group (Sum_initialize example_Inventory ?dec) (Sum_update ?dec) (Sum_finalize ?dec)
       example_state ?rows'
       = run_group (Sum_initialize example_Inventory ?dec) (Sum_update ?dec) (Sum_finalize ?dec)
       example_state ?rows"
    by blast+
  then have r: "run_group (Sum_initialize example_Inventory ?dec) (Sum_update ?dec)
       (Sum_finalize ?dec) example_state ?rows = Inr (VDec (Dec 35 0))"
    and r': "run_group (Sum_initialize example_Inventory ?dec) (Sum_update ?dec)
       (Sum_finalize ?dec) example_state ?rows' = Inr (VDec (Dec 35 0))"
    using es by simp_all
  note t' = Sum_order_independent
    [OF h' p, of ?f example_Inventory example_state ?g]
  from t' d' e' have
    "run_group (Sum_initialize example_Inventory ?int) (Sum_update ?int) (Sum_finalize ?int)
       example_state ?rows = Inr (VInt (\<Sum>r\<leftarrow>?rows. ?f r))"
    and "run_group (Sum_initialize example_Inventory ?int) (Sum_update ?int) (Sum_finalize ?int)
       example_state ?rows'
       = run_group (Sum_initialize example_Inventory ?int) (Sum_update ?int) (Sum_finalize ?int)
       example_state ?rows"
    by blast+
  then have i: "run_group (Sum_initialize example_Inventory ?int) (Sum_update ?int)
       (Sum_finalize ?int) example_state ?rows = Inr (VInt 35)"
    and i': "run_group (Sum_initialize example_Inventory ?int) (Sum_update ?int)
       (Sum_finalize ?int) example_state ?rows' = Inr (VInt 35)"
    by simp_all
  from h p d m fp r r' d' m' i i' show ?thesis by (intro conjI)
qed

lemma nd: "ndigits 10000000000000000000000000000 = 29"
  by (simp add: ndigits.simps)

lemma nd2: "ndigits 10000000000000000000000000001 = 29" "ndigits 0 = 1"  "ndigits 1 = 1" "ndigits (Suc 0) = 1"
  by (simp_all add: ndigits.simps)

lemma dec_add_rounds:
  "dec_add (Dec 0 0) (Dec 10000000000000000000000000000 0) = Dec 1000000000000000000000000000 1"
  "dec_add (Dec 1000000000000000000000000000 1) (Dec 1 0) = Dec 1000000000000000000000000000 1"
  "dec_add (Dec 1000000000000000000000000000 1) (Dec (- 10000000000000000000000000000) 0)
     = Dec 0 0"
  "dec_add (Dec 0 0) (Dec 1 0) = Dec 1 0"
  by (simp_all add: dec_add_def dec_fix_def aligned_def prec_def nd nd2 Let_def)

text \<open>
  The claim C8 as stated fails for \<^verbatim>\<open>Decimal\<close> operands: an addition rounds its result
  to the 28 digits of the context, so the finalized value depends on the order of the
  rows. The rows \<open>10^28\<close>, \<open>1\<close>, \<open>-10^28\<close> finalize to 0 in this order and to 1 when
  the last two are exchanged.
\<close>

theorem Sum_order_counterexample:
  "mset [example_posting 10000000000000000000000000000,
         example_posting (- 10000000000000000000000000000), example_posting 1]
     = mset [example_posting 10000000000000000000000000000, example_posting 1,
             example_posting (- 10000000000000000000000000000)]
   \<and> run_group (Sum_initialize example_Inventory (example_aggregator C_Sum TDecimal))
        (Sum_update (example_aggregator C_Sum TDecimal))
        (Sum_finalize (example_aggregator C_Sum TDecimal))
        example_state
        [example_posting 10000000000000000000000000000, example_posting 1,
         example_posting (- 10000000000000000000000000000)]
       = Inr (VDec (Dec 0 0))
   \<and> run_group (Sum_initialize example_Inventory (example_aggregator C_Sum TDecimal))
        (Sum_update (example_aggregator C_Sum TDecimal))
        (Sum_finalize (example_aggregator C_Sum TDecimal))
        example_state
        [example_posting 10000000000000000000000000000,
         example_posting (- 10000000000000000000000000000), example_posting 1]
       = Inr (VDec (Dec 1 0))
   \<and> dec_less (Dec 0 0) (Dec 1 0)"
  by (simp add: run_group_def Sum_initialize_def Sum_update_def Sum_finalize_def
      dtype_call_def NumberColumn_def getitem_def setitem_def get_handle_def dec_add_rounds
      dec_less_def aligned_def add.commute)

end
